theory Spec2Isabelle
  imports Main "HOL-Library.Word"
begin

section \<open>GreenHouseIno: the greenhouse controller sketch\<close>

text \<open>
  A shallow embedding of \<^verbatim>\<open>GreenHouseIno.ino\<close>. The sketch is written for an
  ATmega328 board (the header wires I2C to A4/A5 and SPI to pins 10 to 13), where
  \<^verbatim>\<open>int\<close> has 16 bits and \<^verbatim>\<open>unsigned long\<close> has 32 bits. An \<^verbatim>\<open>int\<close> is a
  \<open>16 word\<close> read with \<open>sint\<close>; an \<^verbatim>\<open>unsigned long\<close> is a \<open>32 word\<close>, whose
  \<open>-\<close> wraps and whose \<open>\<le>\<close> and \<open>div\<close> are unsigned. Global variables are the fields
  of one record that every function takes and returns.
\<close>

subsection \<open>Constants\<close>

definition ON :: "16 word" where "ON = 0"
definition OFF :: "16 word" where "OFF = 1"

definition DHTInterval :: "32 word" where "DHTInterval = 5"
definition timeUpdateInterval :: "32 word" where "timeUpdateInterval = 1"
definition fileWriteInterval :: "32 word" where "fileWriteInterval = 300"

definition growthDays :: "16 word" where "growthDays = 10"
definition reproductiveDays :: "16 word" where "reproductiveDays = 5"
definition GDTemperature :: "16 word" where "GDTemperature = 20"
definition GDHumidity :: "16 word" where "GDHumidity = 50"
definition RDTemperature :: "16 word" where "RDTemperature = 15"
definition RDHumidity :: "16 word" where "RDHumidity = 25"

subsection \<open>Strings and dates\<close>

text \<open>
  The Arduino \<^verbatim>\<open>String\<close> functions the sketch calls belong to the Arduino core, not
  to this repository. They are written here as the core documents them:
  \<^verbatim>\<open>String(n)\<close> is the decimal numeral of \<open>n\<close> with a minus sign when negative,
  \<^verbatim>\<open>substring(left, right)\<close> is the characters from index \<open>left\<close> up to but not
  including \<open>right\<close> (the bounds swapped when \<open>left > right\<close>, cut at the end of the
  string), and \<^verbatim>\<open>toInt()\<close> is C's \<^verbatim>\<open>atol\<close>: leading white space, an optional
  sign, then digits up to the first other character, and 0 when there is no digit.
\<close>

definition digit_char :: "nat \<Rightarrow> char" where
  "digit_char n = ''0123456789'' ! n"

fun digits10 :: "nat \<Rightarrow> string" where
  "digits10 n = (if n < 10 then [digit_char n]
                 else digits10 (n div 10) @ [digit_char (n mod 10)])"

declare digits10.simps [simp del]

definition String_int :: "int \<Rightarrow> string" where
  "String_int n = (if n < 0 then CHR ''-'' # digits10 (nat (- n)) else digits10 (nat n))"

definition substring :: "string \<Rightarrow> nat \<Rightarrow> nat \<Rightarrow> string" where
  "substring str left right =
     (let l = (if right < left then right else left);
          r = (if right < left then left else right)
      in take (r - l) (drop l str))"

definition is_digit :: "char \<Rightarrow> bool" where
  "is_digit c = (c \<in> set ''0123456789'')"

definition digit_val :: "char \<Rightarrow> int" where
  "digit_val c = int (of_char c) - 48"

definition is_space :: "char \<Rightarrow> bool" where
  "is_space c = (c \<in> set [CHR '' '', CHR 0x09, CHR 0x0A, CHR 0x0B, CHR 0x0C, CHR 0x0D])"

fun atol_digits :: "int \<Rightarrow> string \<Rightarrow> int" where
  "atol_digits acc [] = acc"
| "atol_digits acc (c # cs) =
     (if is_digit c then atol_digits (acc * 10 + digit_val c) cs else acc)"

definition toInt :: "string \<Rightarrow> int" where
  "toInt str =
     (case dropWhile is_space str of
        [] \<Rightarrow> 0
      | c # cs \<Rightarrow>
          if c = CHR ''-'' then - atol_digits 0 cs
          else if c = CHR ''+'' then atol_digits 0 cs
          else atol_digits 0 (c # cs))"

text \<open>
  RTClib's \<^verbatim>\<open>DateTime\<close>, as the sketch sees it: the six calendar fields that the
  accessors \<^verbatim>\<open>year()\<close> to \<^verbatim>\<open>second()\<close> return and that the six-argument
  constructor takes, each as the \<^verbatim>\<open>int\<close> the sketch handles.
\<close>

record DateTime =
  year :: "16 word"
  month :: "16 word"
  day :: "16 word"
  hour :: "16 word"
  minute :: "16 word"
  second :: "16 word"

definition DateTime_of ::
  "16 word \<Rightarrow> 16 word \<Rightarrow> 16 word \<Rightarrow> 16 word \<Rightarrow> 16 word \<Rightarrow> 16 word \<Rightarrow> DateTime" where
  "DateTime_of y mo d h mi sec =
     \<lparr>year = y, month = mo, day = d, hour = h, minute = mi, second = sec\<rparr>"

definition formatNumber :: "16 word \<Rightarrow> string" where
  "formatNumber n =
     (if sint n < 10 then ''0'' @ String_int (sint n) else String_int (sint n))"

definition printTime :: "DateTime \<Rightarrow> string" where
  "printTime dt =
     formatNumber (hour dt) @ '':'' @ formatNumber (minute dt) @ '':''
       @ formatNumber (second dt)"

definition printDate :: "DateTime \<Rightarrow> string" where
  "printDate dt =
     formatNumber (day dt) @ ''/'' @ formatNumber (month dt) @ ''/''
       @ formatNumber (year dt)"

text \<open>
  The two branches of \<^verbatim>\<open>setup\<close> on \<^verbatim>\<open>date.txt\<close>. When the file does not exist,
  \<^verbatim>\<open>println\<close> writes the date, a space, the time and a line end (carriage return,
  line feed): \<open>write_start\<close> is the file's content afterwards. When it exists, its
  whole content is read into \<^verbatim>\<open>data\<close> and the six fields are cut out of it:
  \<open>read_start\<close> is the \<^verbatim>\<open>DateTime\<close> built from them.
\<close>

definition write_start :: "DateTime \<Rightarrow> string" where
  "write_start start = printDate start @ '' '' @ printTime start @ [CHR 0x0D, CHR 0x0A]"

definition read_start :: "string \<Rightarrow> DateTime" where
  "read_start data =
     (let year = word_of_int (toInt (substring data 6 10)) :: 16 word;
          month = word_of_int (toInt (substring data 3 5)) :: 16 word;
          day = word_of_int (toInt (substring data 0 2)) :: 16 word;
          hour = word_of_int (toInt (substring data 11 13)) :: 16 word;
          minute = word_of_int (toInt (substring data 14 16)) :: 16 word;
          second = word_of_int (toInt (substring data 17 19)) :: 16 word
      in DateTime_of year month day hour minute second)"

text \<open>
  The timestamps the cycle start can be: the years 2000 to 2099 that RTClib's
  \<^verbatim>\<open>DateTime\<close> covers, with month, day, hour, minute and second in their calendar
  ranges.
\<close>

definition valid_DateTime :: "DateTime \<Rightarrow> bool" where
  "valid_DateTime dt =
     (2000 \<le> sint (year dt) \<and> sint (year dt) \<le> 2099
      \<and> 1 \<le> sint (month dt) \<and> sint (month dt) \<le> 12
      \<and> 1 \<le> sint (day dt) \<and> sint (day dt) \<le> 31
      \<and> 0 \<le> sint (hour dt) \<and> sint (hour dt) \<le> 23
      \<and> 0 \<le> sint (minute dt) \<and> sint (minute dt) \<le> 59
      \<and> 0 \<le> sint (second dt) \<and> sint (second dt) \<le> 59)"

subsection \<open>Global state\<close>

text \<open>
  The sketch's global variables, and what it sends out: \<open>fanPin_level\<close> and
  \<open>valvePin_level\<close> hold the last value written to the relay pins, \<open>errors\<close> the codes
  passed to \<^verbatim>\<open>errorMsg\<close> (oldest first), \<open>datalog\<close> the lines that \<^verbatim>\<open>loop\<close>
  appends to \<^verbatim>\<open>datalog.txt\<close> (after the two header lines of \<^verbatim>\<open>setup\<close>). \<open>start_unixtime\<close> is \<^verbatim>\<open>start.unixtime()\<close>. The text sent to
  the display and to the serial port is not kept: no variable depends on it.
\<close>

record greenhouse =
  previousDHTMeasure :: "32 word"
  previousTimeUpdate :: "32 word"
  previousFileWrite :: "32 word"
  temperatureThreshold :: "16 word"
  humidityThreshold :: "16 word"
  temperature :: "16 word"
  humidity :: "16 word"
  days :: "16 word"
  ciclePhase :: char
  fanState :: "16 word"
  valveState :: "16 word"
  start_unixtime :: "32 word"
  fanPin_level :: "16 word"
  valvePin_level :: "16 word"
  errors :: "nat list"
  datalog :: "string list"

subsection \<open>Actuator decision\<close>

definition changeState :: "greenhouse \<Rightarrow> greenhouse" where
  "changeState s =
     (let s1 = (if sint (temperatureThreshold s) < sint (temperature s)
                then s\<lparr>fanState := ON\<rparr> else s\<lparr>fanState := OFF\<rparr>)
      in (if sint (humidity s1) < sint (humidityThreshold s1)
          then s1\<lparr>valveState := ON\<rparr> else s1\<lparr>valveState := OFF\<rparr>))"

definition greenHouseControl :: "greenhouse \<Rightarrow> greenhouse" where
  "greenHouseControl s =
     (let s1 =
        (if sint (days s) < sint growthDays
         then s\<lparr>ciclePhase := CHR ''G'',
                temperatureThreshold := GDTemperature,
                humidityThreshold := GDHumidity\<rparr>
         else if sint growthDays \<le> sint (days s)
                 \<and> sint (days s) < sint (growthDays + reproductiveDays)
         then s\<lparr>ciclePhase := CHR ''R'',
                temperatureThreshold := RDTemperature,
                humidityThreshold := RDHumidity\<rparr>
         else s\<lparr>ciclePhase := CHR ''E'',
                temperatureThreshold := 99,
                humidityThreshold := 0\<rparr>);
        s2 = changeState s1
      in s2\<lparr>fanPin_level := fanState s2, valvePin_level := valveState s2\<rparr>)"

definition toggleState :: "16 word \<Rightarrow> 16 word" where
  "toggleState pinState = (if pinState = ON then 1 else 0)"

text \<open>The logical actuator commands: an actuator is on when its relay state is \<open>ON\<close>.\<close>

definition fanOn :: "greenhouse \<Rightarrow> bool" where
  "fanOn s = (toggleState (fanState s) = 1)"

definition valveOn :: "greenhouse \<Rightarrow> bool" where
  "valveOn s = (toggleState (valveState s) = 1)"

subsection \<open>The control loop\<close>

text \<open>
  What one pass of \<^verbatim>\<open>loop\<close> reads from outside: the clock (\<open>now\<close> with its
  \<^verbatim>\<open>unixtime()\<close>), the two values that \<^verbatim>\<open>dht.readTemperature()\<close> and
  \<^verbatim>\<open>dht.readHumidity()\<close> leave in the \<^verbatim>\<open>int\<close> variables, and whether
  \<^verbatim>\<open>SD.open\<close> and \<^verbatim>\<open>SD.begin\<close> succeed.
\<close>

text \<open>
  Modelled from the spec: \<open>dht_valid\<close> is the validity flag of the Environment Sensor's
  \<^verbatim>\<open>read() -> (temperature, humidity, valid)\<close>. The sensor library is not part of the
  sources, and the sketch never asks it whether a reading is valid.
\<close>

record inputs =
  now :: DateTime
  now_unixtime :: "32 word"
  dht_temperature :: "16 word"
  dht_humidity :: "16 word"
  dht_valid :: bool
  sd_open_ok :: bool
  sd_begin_ok :: bool

definition errorMsg :: "nat \<Rightarrow> greenhouse \<Rightarrow> greenhouse" where
  "errorMsg e s = s\<lparr>errors := errors s @ [e]\<rparr>"

text \<open>The elapsed seconds and days of lines 256 and 261.\<close>

definition currentSecond :: "inputs \<Rightarrow> greenhouse \<Rightarrow> 32 word" where
  "currentSecond i s = now_unixtime i - start_unixtime s"

definition elapsedDays :: "32 word \<Rightarrow> 16 word" where
  "elapsedDays cs = ucast (cs div 86400)"

text \<open>The three conditions of \<^verbatim>\<open>loop\<close>, on unsigned 32-bit differences.\<close>

definition timeUpdateDue :: "32 word \<Rightarrow> greenhouse \<Rightarrow> bool" where
  "timeUpdateDue cs s = (timeUpdateInterval \<le> cs - previousTimeUpdate s)"

definition DHTMeasureDue :: "32 word \<Rightarrow> greenhouse \<Rightarrow> bool" where
  "DHTMeasureDue cs s = (DHTInterval \<le> cs - previousDHTMeasure s)"

definition fileWriteDue :: "32 word \<Rightarrow> greenhouse \<Rightarrow> bool" where
  "fileWriteDue cs s = (fileWriteInterval \<le> cs - previousFileWrite s)"

definition timeUpdate :: "32 word \<Rightarrow> greenhouse \<Rightarrow> greenhouse" where
  "timeUpdate cs s =
     (if timeUpdateDue cs s
      then s\<lparr>previousTimeUpdate := cs, days := elapsedDays cs\<rparr>
      else s)"

definition DHTMeasure :: "inputs \<Rightarrow> 32 word \<Rightarrow> greenhouse \<Rightarrow> greenhouse" where
  "DHTMeasure i cs s =
     (if DHTMeasureDue cs s
      then greenHouseControl
             (s\<lparr>previousDHTMeasure := cs,
                temperature := dht_temperature i,
                humidity := dht_humidity i\<rparr>)
      else s)"

definition dataString :: "inputs \<Rightarrow> greenhouse \<Rightarrow> string" where
  "dataString i s =
     printDate (now i) @ '' '' @ printTime (now i) @ '', '' @ String_int (sint (days s))
       @ '', '' @ String_int (sint (temperature s)) @ '', ''
       @ String_int (sint (humidity s)) @ '', '' @ [ciclePhase s]
       @ String_int (sint (toggleState (fanState s)))
       @ String_int (sint (toggleState (valveState s)))"

definition fileWrite :: "inputs \<Rightarrow> 32 word \<Rightarrow> greenhouse \<Rightarrow> greenhouse" where
  "fileWrite i cs s =
     (if fileWriteDue cs s
      then
        (let s1 = s\<lparr>previousFileWrite := cs\<rparr>
         in if sd_open_ok i
            then s1\<lparr>datalog := datalog s1 @ [dataString i s1]\<rparr>
            else
              (let s2 = errorMsg 22 s1
               in if \<not> sd_begin_ok i
                  then errorMsg 21 s2
                  else s2\<lparr>previousFileWrite := previousFileWrite s2 - fileWriteInterval\<rparr>))
      else s)"

definition loop :: "inputs \<Rightarrow> greenhouse \<Rightarrow> greenhouse" where
  "loop i s =
     (let cs = currentSecond i s
      in fileWrite i cs (DHTMeasure i cs (timeUpdate cs s)))"

text \<open>
  One pass of \<^verbatim>\<open>loop\<close>: the time update, the sensor block and the log write, in
  this order, each behind its own condition. The last block of \<^verbatim>\<open>loop\<close>, which
  shows the thresholds on the display for a second while the button is pressed, assigns
  no variable and is left out. \<open>loops\<close> is a series of passes, one per element of the
  input list.
\<close>

fun loops :: "inputs list \<Rightarrow> greenhouse \<Rightarrow> greenhouse" where
  "loops [] s = s"
| "loops (i # is) s = loops is (loop i s)"

text \<open>
  The global variables when \<^verbatim>\<open>loop\<close> first runs, after a \<^verbatim>\<open>setup\<close> that met no
  error: the initialisers of the declarations (0 where there is none), and both relay
  pins written \<open>OFF\<close>.
\<close>

definition initial :: "32 word \<Rightarrow> greenhouse" where
  "initial su =
     \<lparr>previousDHTMeasure = 0, previousTimeUpdate = 0, previousFileWrite = 0,
      temperatureThreshold = 0, humidityThreshold = 0, temperature = 0, humidity = 0,
      days = 0, ciclePhase = CHR ''U'', fanState = OFF, valveState = OFF,
      start_unixtime = su, fanPin_level = OFF, valvePin_level = OFF,
      errors = [], datalog = []\<rparr>"

text \<open>
  The inputs of a pass at calendar time \<open>dt\<close>, whose \<^verbatim>\<open>unixtime()\<close> is \<open>u\<close>,
  with the sensor delivering \<open>t\<close> and \<open>h\<close> as a valid reading and the card working.
\<close>

definition pass_at :: "DateTime \<Rightarrow> 32 word \<Rightarrow> 16 word \<Rightarrow> 16 word \<Rightarrow> inputs" where
  "pass_at dt u t h =
     \<lparr>now = dt, now_unixtime = u, dht_temperature = t, dht_humidity = h,
      dht_valid = True, sd_open_ok = True, sd_begin_ok = True\<rparr>"

subsection \<open>Invariant of the loop\<close>

text \<open>
  \<open>days_current\<close>: the day count is the one of the last time update. It holds when
  \<^verbatim>\<open>loop\<close> first runs and after every pass.
\<close>

definition days_current :: "greenhouse \<Rightarrow> bool" where
  "days_current s = (days s = elapsedDays (previousTimeUpdate s))"

text \<open>
  The order of the phases, as the specification gives it: growth before reproductive
  before finished. \<^verbatim>\<open>'U'\<close>, the value of \<^verbatim>\<open>ciclePhase\<close> before the first sensor
  reading, ranks below all three.
\<close>

definition phaseRank :: "char \<Rightarrow> nat" where
  "phaseRank c =
     (if c = CHR ''G'' then 1 else if c = CHR ''R'' then 2 else if c = CHR ''E'' then 3
      else 0)"

text \<open>The phase shown after each of a series of passes.\<close>

fun phases :: "inputs list \<Rightarrow> greenhouse \<Rightarrow> char list" where
  "phases [] s = []"
| "phases (i # is) s = ciclePhase (loop i s) # phases is (loop i s)"

text \<open>
  \<open>cycle_inv\<close>: the day count is current and below 32768, and the phase shown is not
  ahead of the phase of the day count.
\<close>

definition cycle_inv :: "greenhouse \<Rightarrow> bool" where
  "cycle_inv s =
     (days_current s \<and> uint (previousTimeUpdate s) div 86400 < 32768
      \<and> phaseRank (ciclePhase s) \<le> phaseRank (ciclePhase (greenHouseControl s)))"

section \<open>Auxiliary facts\<close>

subsection \<open>What \<^verbatim>\<open>greenHouseControl\<close> computes\<close>

lemma ciclePhase_greenHouseControl:
  "ciclePhase (greenHouseControl s) =
     (if sint (days s) < 10 then CHR ''G''
      else if sint (days s) < 15 then CHR ''R'' else CHR ''E'')"
  by (simp add: greenHouseControl_def changeState_def growthDays_def reproductiveDays_def Let_def)

lemma temperatureThreshold_greenHouseControl:
  "temperatureThreshold (greenHouseControl s) =
     (if sint (days s) < 10 then 20 else if sint (days s) < 15 then 15 else 99)"
  by (simp add: greenHouseControl_def changeState_def growthDays_def reproductiveDays_def
      GDTemperature_def RDTemperature_def Let_def)

lemma humidityThreshold_greenHouseControl:
  "humidityThreshold (greenHouseControl s) =
     (if sint (days s) < 10 then 50 else if sint (days s) < 15 then 25 else 0)"
  by (simp add: greenHouseControl_def changeState_def growthDays_def reproductiveDays_def
      GDHumidity_def RDHumidity_def Let_def)

lemma fanState_greenHouseControl:
  "fanState (greenHouseControl s) =
     (if sint (temperatureThreshold (greenHouseControl s)) < sint (temperature s)
      then ON else OFF)"
  by (simp add: greenHouseControl_def changeState_def Let_def)

lemma valveState_greenHouseControl:
  "valveState (greenHouseControl s) =
     (if sint (humidity s) < sint (humidityThreshold (greenHouseControl s))
      then ON else OFF)"
  by (simp add: greenHouseControl_def changeState_def Let_def)

lemma pins_greenHouseControl:
  "fanPin_level (greenHouseControl s) = fanState (greenHouseControl s)"
  "valvePin_level (greenHouseControl s) = valveState (greenHouseControl s)"
  by (simp_all add: greenHouseControl_def changeState_def Let_def)

lemma frame_greenHouseControl:
  "days (greenHouseControl s) = days s"
  "temperature (greenHouseControl s) = temperature s"
  "humidity (greenHouseControl s) = humidity s"
  "previousTimeUpdate (greenHouseControl s) = previousTimeUpdate s"
  "previousDHTMeasure (greenHouseControl s) = previousDHTMeasure s"
  "previousFileWrite (greenHouseControl s) = previousFileWrite s"
  "start_unixtime (greenHouseControl s) = start_unixtime s"
  "errors (greenHouseControl s) = errors s"
  "datalog (greenHouseControl s) = datalog s"
  by (simp_all add: greenHouseControl_def changeState_def Let_def)

lemma fanOn_iff: "fanOn s = (fanState s = ON)"
  by (simp add: fanOn_def toggleState_def)

lemma valveOn_iff: "valveOn s = (valveState s = ON)"
  by (simp add: valveOn_def toggleState_def)

lemma fanOn_greenHouseControl:
  "fanOn (greenHouseControl s) =
     (sint (temperatureThreshold (greenHouseControl s)) < sint (temperature s))"
  by (simp add: fanOn_iff fanState_greenHouseControl ON_def OFF_def)

lemma valveOn_greenHouseControl:
  "valveOn (greenHouseControl s) =
     (sint (humidity s) < sint (humidityThreshold (greenHouseControl s)))"
  by (simp add: valveOn_iff valveState_greenHouseControl ON_def OFF_def)

lemma fanOn_changeState:
  "fanOn (changeState s) = (sint (temperatureThreshold s) < sint (temperature s))"
  by (simp add: fanOn_def changeState_def toggleState_def ON_def OFF_def Let_def)

lemma valveOn_changeState:
  "valveOn (changeState s) = (sint (humidity s) < sint (humidityThreshold s))"
  by (simp add: valveOn_def changeState_def toggleState_def ON_def OFF_def Let_def)

subsection \<open>What one pass of \<^verbatim>\<open>loop\<close> changes\<close>

lemma timeUpdate_frame:
  "previousDHTMeasure (timeUpdate cs s) = previousDHTMeasure s"
  "previousFileWrite (timeUpdate cs s) = previousFileWrite s"
  "temperatureThreshold (timeUpdate cs s) = temperatureThreshold s"
  "humidityThreshold (timeUpdate cs s) = humidityThreshold s"
  "temperature (timeUpdate cs s) = temperature s"
  "humidity (timeUpdate cs s) = humidity s"
  "ciclePhase (timeUpdate cs s) = ciclePhase s"
  "fanState (timeUpdate cs s) = fanState s"
  "valveState (timeUpdate cs s) = valveState s"
  "start_unixtime (timeUpdate cs s) = start_unixtime s"
  "fanPin_level (timeUpdate cs s) = fanPin_level s"
  "valvePin_level (timeUpdate cs s) = valvePin_level s"
  "errors (timeUpdate cs s) = errors s"
  "datalog (timeUpdate cs s) = datalog s"
  by (simp_all add: timeUpdate_def)

lemma not_timeUpdateDue: "\<not> timeUpdateDue cs s \<Longrightarrow> previousTimeUpdate s = cs"
  by (simp add: timeUpdateDue_def timeUpdateInterval_def not_le word_less_1)

lemma previousTimeUpdate_timeUpdate: "previousTimeUpdate (timeUpdate cs s) = cs"
  by (simp add: timeUpdate_def not_timeUpdateDue)

lemma days_timeUpdate: "days_current s \<Longrightarrow> days (timeUpdate cs s) = elapsedDays cs"
  using not_timeUpdateDue [of cs s] by (auto simp add: timeUpdate_def days_current_def)

lemma DHTMeasureDue_timeUpdate: "DHTMeasureDue cs (timeUpdate cs' s) = DHTMeasureDue cs s"
  by (simp add: DHTMeasureDue_def timeUpdate_frame)

lemma DHTMeasure_frame:
  "previousTimeUpdate (DHTMeasure i cs s) = previousTimeUpdate s"
  "previousFileWrite (DHTMeasure i cs s) = previousFileWrite s"
  "days (DHTMeasure i cs s) = days s"
  "start_unixtime (DHTMeasure i cs s) = start_unixtime s"
  "errors (DHTMeasure i cs s) = errors s"
  "datalog (DHTMeasure i cs s) = datalog s"
  by (simp_all add: DHTMeasure_def frame_greenHouseControl)

lemma DHTMeasure_due:
  "DHTMeasureDue cs s \<Longrightarrow>
     DHTMeasure i cs s =
       greenHouseControl (s\<lparr>previousDHTMeasure := cs, temperature := dht_temperature i,
                            humidity := dht_humidity i\<rparr>)"
  by (simp add: DHTMeasure_def)

lemma DHTMeasure_not_due: "\<not> DHTMeasureDue cs s \<Longrightarrow> DHTMeasure i cs s = s"
  by (simp add: DHTMeasure_def)

lemma fileWrite_frame:
  "previousTimeUpdate (fileWrite i cs s) = previousTimeUpdate s"
  "previousDHTMeasure (fileWrite i cs s) = previousDHTMeasure s"
  "temperatureThreshold (fileWrite i cs s) = temperatureThreshold s"
  "humidityThreshold (fileWrite i cs s) = humidityThreshold s"
  "temperature (fileWrite i cs s) = temperature s"
  "humidity (fileWrite i cs s) = humidity s"
  "days (fileWrite i cs s) = days s"
  "ciclePhase (fileWrite i cs s) = ciclePhase s"
  "fanState (fileWrite i cs s) = fanState s"
  "valveState (fileWrite i cs s) = valveState s"
  "start_unixtime (fileWrite i cs s) = start_unixtime s"
  "fanPin_level (fileWrite i cs s) = fanPin_level s"
  "valvePin_level (fileWrite i cs s) = valvePin_level s"
  by (simp_all add: fileWrite_def errorMsg_def Let_def)

lemma loop_frame:
  "start_unixtime (loop i s) = start_unixtime s"
  "previousTimeUpdate (loop i s) = currentSecond i s"
  by (simp_all add: loop_def Let_def fileWrite_frame DHTMeasure_frame timeUpdate_frame
      previousTimeUpdate_timeUpdate)

lemma days_loop: "days_current s \<Longrightarrow> days (loop i s) = elapsedDays (currentSecond i s)"
  by (simp add: loop_def Let_def fileWrite_frame DHTMeasure_frame days_timeUpdate)

lemma days_current_loop: "days_current s \<Longrightarrow> days_current (loop i s)"
  by (simp add: days_current_def [of "loop i s"] days_loop loop_frame)

lemma days_current_initial: "days_current (initial su)"
  by (simp add: days_current_def initial_def elapsedDays_def)

lemma loop_due:
  assumes "DHTMeasureDue (currentSecond i s) s" and "days_current s"
  shows "ciclePhase (loop i s) =
           (if sint (elapsedDays (currentSecond i s)) < 10 then CHR ''G''
            else if sint (elapsedDays (currentSecond i s)) < 15 then CHR ''R''
            else CHR ''E'')"
    and "temperatureThreshold (loop i s) =
           (if sint (elapsedDays (currentSecond i s)) < 10 then 20
            else if sint (elapsedDays (currentSecond i s)) < 15 then 15 else 99)"
    and "humidityThreshold (loop i s) =
           (if sint (elapsedDays (currentSecond i s)) < 10 then 50
            else if sint (elapsedDays (currentSecond i s)) < 15 then 25 else 0)"
    and "fanState (loop i s) =
           (if sint (temperatureThreshold (loop i s)) < sint (dht_temperature i)
            then ON else OFF)"
    and "valveState (loop i s) =
           (if sint (dht_humidity i) < sint (humidityThreshold (loop i s))
            then ON else OFF)"
    and "temperature (loop i s) = dht_temperature i"
    and "humidity (loop i s) = dht_humidity i"
  using assms
  by (simp_all add: loop_def Let_def fileWrite_frame DHTMeasureDue_timeUpdate
      DHTMeasure_due ciclePhase_greenHouseControl temperatureThreshold_greenHouseControl
      humidityThreshold_greenHouseControl fanState_greenHouseControl
      valveState_greenHouseControl frame_greenHouseControl days_timeUpdate)

lemma loop_not_due:
  assumes "\<not> DHTMeasureDue (currentSecond i s) s"
  shows "ciclePhase (loop i s) = ciclePhase s"
    and "temperatureThreshold (loop i s) = temperatureThreshold s"
    and "humidityThreshold (loop i s) = humidityThreshold s"
    and "fanState (loop i s) = fanState s"
    and "valveState (loop i s) = valveState s"
    and "temperature (loop i s) = temperature s"
    and "humidity (loop i s) = humidity s"
  using assms
  by (simp_all add: loop_def Let_def fileWrite_frame DHTMeasureDue_timeUpdate
      DHTMeasure_not_due timeUpdate_frame)

subsection \<open>The day count as a number\<close>

lemma sint_elapsedDays_gen:
  "sint (elapsedDays cs) = signed_take_bit 15 (uint cs div 86400)"
proof -
  have "elapsedDays cs = word_of_int (uint (cs div 86400))"
    by (simp add: elapsedDays_def)
  then have "sint (elapsedDays cs) = signed_take_bit 15 (uint (cs div 86400))"
    by (simp only: Word.sint_sbintrunc') simp
  also have "uint (cs div 86400) = uint cs div 86400"
    by (simp add: uint_div)
  finally show ?thesis .
qed

lemma div_bound: "0 \<le> uint (cs :: 32 word) div 86400" "uint (cs :: 32 word) div 86400 < 49711"
proof -
  show "0 \<le> uint cs div 86400" by (simp add: pos_imp_zdiv_nonneg_iff)
  have "uint cs \<le> 4294967295" using uint_lt2p [of cs] by simp
  then have "uint cs div 86400 \<le> 4294967295 div 86400" by (rule zdiv_mono1) simp
  then show "uint cs div 86400 < 49711" by simp
qed

lemma sint_elapsedDays:
  assumes "uint cs div 86400 < 32768"
  shows "sint (elapsedDays cs) = uint cs div 86400"
proof -
  have "signed_take_bit 15 (uint cs div 86400) = uint cs div 86400"
    using assms div_bound(1) [of cs] by (intro signed_take_bit_int_eq_self) simp_all
  then show ?thesis by (simp add: sint_elapsedDays_gen)
qed

lemma sint_elapsedDays_neg:
  assumes "32768 \<le> uint cs div 86400"
  shows "sint (elapsedDays cs) = uint cs div 86400 - 65536"
proof -
  define k where "k = uint cs div 86400"
  have k: "32768 \<le> k" "k < 65536"
    using assms div_bound(2) [of cs] by (simp_all add: k_def)
  have "signed_take_bit 15 k = (k + 32768) mod 65536 - 32768"
    by (simp add: signed_take_bit_eq_take_bit_shift take_bit_eq_mod)
  also have "(k + 32768) mod 65536 = ((k - 32768) + 65536) mod 65536"
    by (simp add: algebra_simps)
  also have "\<dots> = (k - 32768) mod 65536"
    by (rule mod_add_self2)
  also have "\<dots> = k - 32768"
    using k by (intro mod_pos_pos_trivial) simp_all
  finally show ?thesis by (simp add: sint_elapsedDays_gen k_def)
qed

lemma uint_currentSecond:
  assumes "start_unixtime s \<le> now_unixtime i"
  shows "uint (currentSecond i s) = uint (now_unixtime i) - uint (start_unixtime s)"
proof -
  from assms have "uint (start_unixtime s) \<le> uint (now_unixtime i)"
    by (simp add: word_le_def)
  then have "uint (now_unixtime i - start_unixtime s)
               = uint (now_unixtime i) - uint (start_unixtime s)"
    by (simp add: uint_sub_lem)
  then show ?thesis by (simp add: currentSecond_def)
qed

subsection \<open>The sensor block of a pass\<close>

lemma previousDHTMeasure_loop:
  "previousDHTMeasure (loop i s) =
     (if DHTMeasureDue (currentSecond i s) s then currentSecond i s
      else previousDHTMeasure s)"
  by (simp add: loop_def Let_def fileWrite_frame DHTMeasure_def DHTMeasureDue_timeUpdate
      frame_greenHouseControl timeUpdate_frame)

lemma ciclePhase_loop:
  "days_current s \<Longrightarrow>
   ciclePhase (loop i s) =
     (if DHTMeasureDue (currentSecond i s) s
      then (if sint (elapsedDays (currentSecond i s)) < 10 then CHR ''G''
            else if sint (elapsedDays (currentSecond i s)) < 15 then CHR ''R''
            else CHR ''E'')
      else ciclePhase s)"
  by (simp add: loop_due loop_not_due)

lemma currentSecond_loop: "currentSecond i (loop j s) = currentSecond i s"
  by (simp add: currentSecond_def loop_frame)

subsection \<open>The day count grows with the clock\<close>

lemma elapsedDays_mono:
  assumes "a \<le> b" and "uint b div 86400 < 32768"
  shows "sint (elapsedDays a) \<le> sint (elapsedDays b)"
proof -
  from assms(1) have "uint a \<le> uint b" by (simp add: word_le_def)
  then have le: "uint a div 86400 \<le> uint b div 86400" by (rule zdiv_mono1) simp
  with assms(2) have "uint a div 86400 < 32768" by simp
  then have "sint (elapsedDays a) = uint a div 86400" by (rule sint_elapsedDays)
  moreover have "sint (elapsedDays b) = uint b div 86400"
    using assms(2) by (rule sint_elapsedDays)
  ultimately show ?thesis using le by simp
qed

lemma currentSecond_mono:
  assumes "start_unixtime s \<le> now_unixtime i" and "now_unixtime i \<le> now_unixtime j"
  shows "currentSecond i s \<le> currentSecond j s"
proof -
  from assms have "start_unixtime s \<le> now_unixtime j" by simp
  then have "uint (currentSecond j s) = uint (now_unixtime j) - uint (start_unixtime s)"
    by (rule uint_currentSecond)
  moreover have "uint (currentSecond i s) = uint (now_unixtime i) - uint (start_unixtime s)"
    using assms(1) by (rule uint_currentSecond)
  moreover have "uint (now_unixtime i) \<le> uint (now_unixtime j)"
    using assms(2) by (simp add: word_le_def)
  ultimately show ?thesis by (simp add: word_le_def)
qed

lemma currentSecond_start: "start_unixtime s' = start_unixtime s \<Longrightarrow> currentSecond i s' = currentSecond i s"
  by (simp add: currentSecond_def)

subsection \<open>The phase follows the day count\<close>

lemma phaseRank_mono:
  "sint (days s) \<le> sint (days s') \<Longrightarrow>
   phaseRank (ciclePhase (greenHouseControl s))
     \<le> phaseRank (ciclePhase (greenHouseControl s'))"
  by (simp add: ciclePhase_greenHouseControl phaseRank_def)

lemma ciclePhase_greenHouseControl_days:
  "days s' = days s \<Longrightarrow> ciclePhase (greenHouseControl s') = ciclePhase (greenHouseControl s)"
  by (simp add: ciclePhase_greenHouseControl)

lemma cycle_inv_initial: "cycle_inv (initial su)"
  by (simp add: cycle_inv_def days_current_initial)
     (simp add: initial_def phaseRank_def)

lemma cycle_inv_loop:
  assumes inv: "cycle_inv s"
    and prev: "previousTimeUpdate s \<le> currentSecond i s"
    and bound: "uint (currentSecond i s) div 86400 < 32768"
  shows "cycle_inv (loop i s)"
    and "phaseRank (ciclePhase s) \<le> phaseRank (ciclePhase (loop i s))"
proof -
  let ?cs = "currentSecond i s"
  from inv have cur: "days_current s"
    and behind: "phaseRank (ciclePhase s) \<le> phaseRank (ciclePhase (greenHouseControl s))"
    by (simp_all add: cycle_inv_def)
  have d: "days (loop i s) = elapsedDays ?cs" using cur by (rule days_loop)
  from cur have "days s = elapsedDays (previousTimeUpdate s)" by (simp add: days_current_def)
  with prev bound d have "sint (days s) \<le> sint (days (loop i s))"
    by (simp add: elapsedDays_mono)
  then have mono: "phaseRank (ciclePhase (greenHouseControl s))
                     \<le> phaseRank (ciclePhase (greenHouseControl (loop i s)))"
    by (rule phaseRank_mono)
  have ph: "ciclePhase (loop i s) = ciclePhase (greenHouseControl (loop i s))
            \<or> ciclePhase (loop i s) = ciclePhase s"
    using cur d by (simp add: ciclePhase_loop ciclePhase_greenHouseControl)
  from ph behind mono
  show rank: "phaseRank (ciclePhase s) \<le> phaseRank (ciclePhase (loop i s))"
    by auto
  from ph behind mono
  have "phaseRank (ciclePhase (loop i s))
          \<le> phaseRank (ciclePhase (greenHouseControl (loop i s)))"
    by auto
  with bound cur show "cycle_inv (loop i s)"
    by (simp add: cycle_inv_def days_current_loop loop_frame)
qed

lemma phases_sorted:
  assumes "cycle_inv s"
    and "sorted (map now_unixtime is)"
    and "\<forall>i\<in>set is. start_unixtime s \<le> now_unixtime i
           \<and> (uint (now_unixtime i) - uint (start_unixtime s)) div 86400 < 32768
           \<and> previousTimeUpdate s \<le> currentSecond i s"
  shows "sorted (map phaseRank (ciclePhase s # phases is s))"
  using assms
proof (induction "is" arbitrary: s)
  case Nil
  then show ?case by simp
next
  case (Cons i "is")
  let ?s' = "loop i s"
  from Cons.prems(3) have i: "start_unixtime s \<le> now_unixtime i"
    "(uint (now_unixtime i) - uint (start_unixtime s)) div 86400 < 32768"
    "previousTimeUpdate s \<le> currentSecond i s"
    by simp_all
  from i(1,2) have bound: "uint (currentSecond i s) div 86400 < 32768"
    by (simp add: uint_currentSecond)
  from Cons.prems(1) i(3) bound have inv': "cycle_inv ?s'"
    and rank: "phaseRank (ciclePhase s) \<le> phaseRank (ciclePhase ?s')"
    by (rule cycle_inv_loop)+
  from Cons.prems(2) have sorted': "sorted (map now_unixtime is)"
    and later: "\<forall>j\<in>set is. now_unixtime i \<le> now_unixtime j"
    by simp_all
  have rest: "\<forall>j\<in>set is. start_unixtime ?s' \<le> now_unixtime j
           \<and> (uint (now_unixtime j) - uint (start_unixtime ?s')) div 86400 < 32768
           \<and> previousTimeUpdate ?s' \<le> currentSecond j ?s'"
  proof
    fix j assume j: "j \<in> set is"
    with Cons.prems(3) have "start_unixtime s \<le> now_unixtime j"
      "(uint (now_unixtime j) - uint (start_unixtime s)) div 86400 < 32768"
      by simp_all
    moreover from j later have "now_unixtime i \<le> now_unixtime j" by simp
    with i(1) have "currentSecond i s \<le> currentSecond j s" by (rule currentSecond_mono)
    ultimately show "start_unixtime ?s' \<le> now_unixtime j
           \<and> (uint (now_unixtime j) - uint (start_unixtime ?s')) div 86400 < 32768
           \<and> previousTimeUpdate ?s' \<le> currentSecond j ?s'"
      by (simp add: loop_frame currentSecond_loop)
  qed
  from Cons.IH [OF inv' sorted' rest]
  have "sorted (map phaseRank (ciclePhase ?s' # phases is ?s'))" .
  with rank show ?case by (auto intro: order_trans)
qed

subsection \<open>Errors reported, and a clock behind the cycle start\<close>

lemma errors_fileWrite:
  "errors (fileWrite i cs s) =
     (if fileWriteDue cs s \<and> \<not> sd_open_ok i
      then errors s @ (if sd_begin_ok i then [22] else [22, 21])
      else errors s)"
  by (simp add: fileWrite_def errorMsg_def Let_def)

lemma errors_loop:
  "errors (loop i s) =
     (if fileWriteDue (currentSecond i s) s \<and> \<not> sd_open_ok i
      then errors s @ (if sd_begin_ok i then [22] else [22, 21])
      else errors s)"
  by (simp add: loop_def Let_def errors_fileWrite fileWriteDue_def DHTMeasure_frame
      timeUpdate_frame)

lemma uint_currentSecond_behind:
  assumes "now_unixtime i < start_unixtime s"
  shows "uint (currentSecond i s)
           = 4294967296 - (uint (start_unixtime s) - uint (now_unixtime i))"
proof -
  from assms have "\<not> uint (start_unixtime s) \<le> uint (now_unixtime i)"
    by (simp add: word_less_def)
  then show ?thesis
    by (simp add: currentSecond_def uint_sub_if')
qed

subsection \<open>The validity flag\<close>

lemma DHTMeasure_ignores_valid:
  "DHTMeasure (i\<lparr>dht_valid := v\<rparr>) cs s = DHTMeasure i cs s"
  by (simp add: DHTMeasure_def)

lemma dataString_ignores_valid: "dataString (i\<lparr>dht_valid := v\<rparr>) s = dataString i s"
  by (simp add: dataString_def)

lemma fileWrite_ignores_valid:
  "fileWrite (i\<lparr>dht_valid := v\<rparr>) cs s = fileWrite i cs s"
  by (simp add: fileWrite_def dataString_ignores_valid Let_def)

lemma loop_ignores_valid: "loop (i\<lparr>dht_valid := v\<rparr>) s = loop i s"
  by (simp add: loop_def currentSecond_def DHTMeasure_ignores_valid fileWrite_ignores_valid)

lemma loop_reads:
  assumes "DHTMeasureDue (currentSecond i s) s"
  shows "fanState (loop i s) =
           (if sint (temperatureThreshold (loop i s)) < sint (dht_temperature i)
            then ON else OFF)"
    and "valveState (loop i s) =
           (if sint (dht_humidity i) < sint (humidityThreshold (loop i s))
            then ON else OFF)"
    and "temperature (loop i s) = dht_temperature i"
    and "humidity (loop i s) = dht_humidity i"
  using assms
  by (simp_all add: loop_def Let_def fileWrite_frame DHTMeasureDue_timeUpdate
      DHTMeasure_due temperatureThreshold_greenHouseControl
      humidityThreshold_greenHouseControl fanState_greenHouseControl
      valveState_greenHouseControl frame_greenHouseControl)

subsection \<open>The finished phase\<close>

lemma greenHouseControl_rest:
  assumes "15 \<le> sint (days s)" and "sint (temperature s) \<le> 99"
    and "0 \<le> sint (humidity s)"
  shows "ciclePhase (greenHouseControl s) = CHR ''E''"
    and "fanState (greenHouseControl s) = OFF"
    and "valveState (greenHouseControl s) = OFF"
  using assms
  by (simp_all add: ciclePhase_greenHouseControl fanState_greenHouseControl
      valveState_greenHouseControl temperatureThreshold_greenHouseControl
      humidityThreshold_greenHouseControl)

lemma loop_rest:
  assumes cur: "days_current s" and off: "\<not> fanOn s" "\<not> valveOn s"
    and fin: "15 \<le> uint (currentSecond i s) div 86400"
      "uint (currentSecond i s) div 86400 < 32768"
    and rd: "sint (dht_temperature i) \<le> 99" "0 \<le> sint (dht_humidity i)"
  shows "\<not> fanOn (loop i s)" and "\<not> valveOn (loop i s)"
proof -
  from fin(2) have d: "sint (elapsedDays (currentSecond i s)) = uint (currentSecond i s) div 86400"
    by (rule sint_elapsedDays)
  show "\<not> fanOn (loop i s)"
  proof (cases "DHTMeasureDue (currentSecond i s) s")
    case True
    with cur d fin(1) rd(1) show ?thesis
      by (simp add: fanOn_iff loop_due ON_def OFF_def)
  next
    case False
    with off(1) show ?thesis by (simp add: fanOn_iff loop_not_due)
  qed
  show "\<not> valveOn (loop i s)"
  proof (cases "DHTMeasureDue (currentSecond i s) s")
    case True
    with cur d fin(1) rd(2) show ?thesis
      by (simp add: valveOn_iff loop_due ON_def OFF_def)
  next
    case False
    with off(2) show ?thesis by (simp add: valveOn_iff loop_not_due)
  qed
qed

lemma loops_rest:
  assumes "days_current s" and "\<not> fanOn s" and "\<not> valveOn s"
    and "\<forall>i\<in>set is. 15 \<le> uint (currentSecond i s) div 86400
           \<and> uint (currentSecond i s) div 86400 < 32768
           \<and> sint (dht_temperature i) \<le> 99 \<and> 0 \<le> sint (dht_humidity i)"
  shows "\<not> fanOn (loops is s) \<and> \<not> valveOn (loops is s)"
  using assms
proof (induction "is" arbitrary: s)
  case Nil
  then show ?case by simp
next
  case (Cons i "is")
  from Cons.prems have i: "15 \<le> uint (currentSecond i s) div 86400"
    "uint (currentSecond i s) div 86400 < 32768"
    "sint (dht_temperature i) \<le> 99" "0 \<le> sint (dht_humidity i)"
    by simp_all
  have "days_current (loop i s)" using Cons.prems(1) by (rule days_current_loop)
  moreover have "\<not> fanOn (loop i s)" "\<not> valveOn (loop i s)"
    using Cons.prems(1,2,3) i by (rule loop_rest)+
  moreover have "\<forall>j\<in>set is. 15 \<le> uint (currentSecond j (loop i s)) div 86400
           \<and> uint (currentSecond j (loop i s)) div 86400 < 32768
           \<and> sint (dht_temperature j) \<le> 99 \<and> 0 \<le> sint (dht_humidity j)"
    using Cons.prems(4) by (simp add: currentSecond_loop)
  ultimately have "\<not> fanOn (loops is (loop i s)) \<and> \<not> valveOn (loops is (loop i s))"
    by (rule Cons.IH)
  then show ?case by simp
qed

subsection \<open>The log write\<close>











subsection \<open>Printing and reading decimal numerals\<close>

lemma digit_char_upto:
  "list_all (\<lambda>n. is_digit (digit_char n) \<and> digit_val (digit_char n) = int n
      \<and> \<not> is_space (digit_char n) \<and> digit_char n \<noteq> CHR ''-''
      \<and> digit_char n \<noteq> CHR ''+'') [0..<10]"
  by (simp add: upt_rec [of _ "numeral _"] digit_char_def is_digit_def digit_val_def is_space_def)

lemma digit_char_facts:
  assumes "n < 10"
  shows "is_digit (digit_char n)" and "digit_val (digit_char n) = int n"
    and "\<not> is_space (digit_char n)"
    and "digit_char n \<noteq> CHR ''-''" and "digit_char n \<noteq> CHR ''+''"
proof -
  from assms have "n \<in> set [0..<10]" by simp
  with digit_char_upto
  have "is_digit (digit_char n) \<and> digit_val (digit_char n) = int n
      \<and> \<not> is_space (digit_char n) \<and> digit_char n \<noteq> CHR ''-''
      \<and> digit_char n \<noteq> CHR ''+''"
    unfolding list_all_iff by (rule bspec)
  then show "is_digit (digit_char n)" and "digit_val (digit_char n) = int n"
    and "\<not> is_space (digit_char n)"
    and "digit_char n \<noteq> CHR ''-''" and "digit_char n \<noteq> CHR ''+''"
    by simp_all
qed

lemma digits10_two:
  assumes "n < 100"
  shows "(if n < 10 then ''0'' @ digits10 n else digits10 n)
           = [digit_char (n div 10), digit_char (n mod 10)]"
proof (cases "n < 10")
  case True
  then show ?thesis by (simp add: digits10.simps [of n] digit_char_def)
next
  case False
  with assms have "n div 10 < 10" by simp
  with False show ?thesis
    by (simp add: digits10.simps [of n] digits10.simps [of "n div 10"])
qed

lemma digits10_four:
  assumes "1000 \<le> n" and "n < 10000"
  shows "digits10 n =
           [digit_char (n div 1000), digit_char (n div 100 mod 10),
            digit_char (n div 10 mod 10), digit_char (n mod 10)]"
proof -
  have a: "\<not> n < 10" "\<not> n div 10 < 10" "\<not> n div 100 < 10" "n div 1000 < 10"
    using assms by simp_all
  have b: "n div 10 div 10 = n div 100" "n div 100 div 10 = n div 1000"
    by (simp_all add: div_mult2_eq [symmetric])
  have "digits10 n = digits10 (n div 10) @ [digit_char (n mod 10)]"
    using a(1) by (simp add: digits10.simps [of n])
  also have "digits10 (n div 10) = digits10 (n div 100) @ [digit_char (n div 10 mod 10)]"
    using a(2) b(1) by (simp add: digits10.simps [of "n div 10"])
  also have "digits10 (n div 100) = digits10 (n div 1000) @ [digit_char (n div 100 mod 10)]"
    using a(3) b(2) by (simp add: digits10.simps [of "n div 100"])
  also have "digits10 (n div 1000) = [digit_char (n div 1000)]"
    using a(4) by (simp add: digits10.simps [of "n div 1000"])
  finally show ?thesis by simp
qed

lemma toInt_two:
  assumes "a < 10" and "b < 10"
  shows "toInt [digit_char a, digit_char b] = int (10 * a + b)"
  using assms by (simp add: toInt_def digit_char_facts)

lemma toInt_four:
  assumes "a < 10" and "b < 10" and "c < 10" and "d < 10"
  shows "toInt [digit_char a, digit_char b, digit_char c, digit_char d]
           = int (1000 * a + 100 * b + 10 * c + d)"
  using assms by (simp add: toInt_def digit_char_facts)

lemma formatNumber_two:
  assumes "0 \<le> sint w" and "sint w < 100"
  shows "formatNumber w
           = [digit_char (nat (sint w) div 10), digit_char (nat (sint w) mod 10)]"
proof -
  let ?k = "nat (sint w)"
  have "?k < 100" using assms by simp
  then have two: "(if ?k < 10 then ''0'' @ digits10 ?k else digits10 ?k)
               = [digit_char (?k div 10), digit_char (?k mod 10)]"
    by (rule digits10_two)
  have small: "(sint w < 10) = (?k < 10)" using assms(1) by auto
  have "formatNumber w = (if ?k < 10 then ''0'' @ digits10 ?k else digits10 ?k)"
    using assms(1) by (simp only: formatNumber_def String_int_def small) simp
  with two show ?thesis by (simp only:)
qed

lemma formatNumber_four:
  assumes "1000 \<le> sint w" and "sint w < 10000"
  shows "formatNumber w
           = [digit_char (nat (sint w) div 1000), digit_char (nat (sint w) div 100 mod 10),
              digit_char (nat (sint w) div 10 mod 10), digit_char (nat (sint w) mod 10)]"
proof -
  have "1000 \<le> nat (sint w)" "nat (sint w) < 10000" using assms by simp_all
  then have "digits10 (nat (sint w))
               = [digit_char (nat (sint w) div 1000), digit_char (nat (sint w) div 100 mod 10),
                  digit_char (nat (sint w) div 10 mod 10), digit_char (nat (sint w) mod 10)]"
    by (rule digits10_four)
  then show ?thesis using assms(1) by (simp add: formatNumber_def String_int_def)
qed

lemma read_two:
  assumes "0 \<le> sint w" and "sint w < 100"
  shows "word_of_int (toInt [digit_char (nat (sint w) div 10),
                             digit_char (nat (sint w) mod 10)]) = w"
proof -
  let ?k = "nat (sint w)"
  have "?k div 10 < 10" "?k mod 10 < 10" using assms by simp_all
  then have "toInt [digit_char (?k div 10), digit_char (?k mod 10)]
               = int (10 * (?k div 10) + ?k mod 10)"
    by (rule toInt_two)
  also have "\<dots> = int ?k" by simp
  also have "\<dots> = sint w" using assms(1) by simp
  finally show ?thesis by simp
qed

lemma four_digits:
  "1000 * (k div 1000) + 100 * (k div 100 mod 10) + 10 * (k div 10 mod 10) + k mod 10
     = (k :: nat)"
proof -
  define q1 q2 q3 r1 r2 r3
    where "q1 = k div 10" and "q2 = k div 100" and "q3 = k div 1000"
      and "r1 = k mod 10" and "r2 = k div 10 mod 10" and "r3 = k div 100 mod 10"
  have "q1 div 10 = q2" "q2 div 10 = q3"
    by (simp_all add: q1_def q2_def q3_def div_mult2_eq [symmetric])
  then have "k = 10 * q1 + r1" "q1 = 10 * q2 + r2" "q2 = 10 * q3 + r3"
    using mult_div_mod_eq [of 10 k] mult_div_mod_eq [of 10 q1] mult_div_mod_eq [of 10 q2]
    by (simp_all add: q1_def q2_def r1_def r2_def r3_def)
  then have "1000 * q3 + 100 * r3 + 10 * r2 + r1 = k" by simp
  then show ?thesis by (simp only: q3_def r1_def r2_def r3_def)
qed

lemma read_four:
  assumes "1000 \<le> sint w" and "sint w < 10000"
  shows "word_of_int (toInt [digit_char (nat (sint w) div 1000),
                             digit_char (nat (sint w) div 100 mod 10),
                             digit_char (nat (sint w) div 10 mod 10),
                             digit_char (nat (sint w) mod 10)]) = w"
proof -
  let ?k = "nat (sint w)"
  have "?k div 1000 < 10" using assms by simp
  moreover have "?k div 100 mod 10 < 10" "?k div 10 mod 10 < 10" "?k mod 10 < 10"
    by simp_all
  ultimately have "toInt [digit_char (?k div 1000), digit_char (?k div 100 mod 10),
                          digit_char (?k div 10 mod 10), digit_char (?k mod 10)]
               = int (1000 * (?k div 1000) + 100 * (?k div 100 mod 10)
                      + 10 * (?k div 10 mod 10) + ?k mod 10)"
    by (rule toInt_four)
  also have "\<dots> = int ?k" by (simp only: four_digits)
  also have "\<dots> = sint w" using assms(1) by simp
  finally show ?thesis by simp
qed

subsection \<open>The states a run of the program reaches\<close>

lemma days_current_loops: "days_current s \<Longrightarrow> days_current (loops is s)"
  by (induction "is" arbitrary: s) (simp_all add: days_current_loop)

lemma start_unixtime_loops: "start_unixtime (loops is s) = start_unixtime s"
  by (induction "is" arbitrary: s) (simp_all add: loop_frame)

lemma days_current_run: "days_current (loops is (initial su))"
  by (simp add: days_current_loops days_current_initial)

lemma start_unixtime_run: "start_unixtime (loops is (initial su)) = su"
  by (simp add: start_unixtime_loops) (simp add: initial_def)

lemma days_floor_inv:
  assumes "days_current s"
  shows "sint (days (loop i s)) =
           signed_take_bit 15 (uint (now_unixtime i - start_unixtime s) div 86400)
         \<and> (start_unixtime s \<le> now_unixtime i
              \<and> (uint (now_unixtime i) - uint (start_unixtime s)) div 86400 < 32768
            \<longrightarrow> sint (days (loop i s)) =
                  (uint (now_unixtime i) - uint (start_unixtime s)) div 86400)"
proof (intro conjI impI)
  show "sint (days (loop i s)) =
          signed_take_bit 15 (uint (now_unixtime i - start_unixtime s) div 86400)"
    using assms by (simp add: days_loop sint_elapsedDays_gen currentSecond_def)
next
  assume a: "start_unixtime s \<le> now_unixtime i
             \<and> (uint (now_unixtime i) - uint (start_unixtime s)) div 86400 < 32768"
  then have eq: "uint (currentSecond i s) = uint (now_unixtime i) - uint (start_unixtime s)"
    by (simp add: uint_currentSecond)
  with a have "uint (currentSecond i s) div 86400 < 32768"
    by simp
  then have "sint (elapsedDays (currentSecond i s)) = uint (currentSecond i s) div 86400"
    by (rule sint_elapsedDays)
  with eq show "sint (days (loop i s)) =
                  (uint (now_unixtime i) - uint (start_unixtime s)) div 86400"
    using assms by (simp add: days_loop)
qed

lemma days_monotone_inv:
  assumes "days_current s1" and "days_current s2"
    and "start_unixtime s2 = start_unixtime s1"
    and "start_unixtime s1 \<le> now_unixtime i1"
    and "now_unixtime i1 < now_unixtime i2"
    and "(uint (now_unixtime i2) - uint (start_unixtime s1)) div 86400 < 32768"
  shows "sint (days (loop i1 s1)) \<le> sint (days (loop i2 s2))"
proof -
  have le: "currentSecond i1 s1 \<le> currentSecond i2 s1"
    using assms(4,5) by (intro currentSecond_mono) simp_all
  have "start_unixtime s1 \<le> now_unixtime i2" using assms(4,5) by simp
  then have "uint (currentSecond i2 s1) = uint (now_unixtime i2) - uint (start_unixtime s1)"
    by (rule uint_currentSecond)
  with assms(6) have "uint (currentSecond i2 s1) div 86400 < 32768" by simp
  with le have "sint (elapsedDays (currentSecond i1 s1))
                  \<le> sint (elapsedDays (currentSecond i2 s1))"
    by (rule elapsedDays_mono)
  moreover have "currentSecond i2 s2 = currentSecond i2 s1"
    using assms(3) by (rule currentSecond_start)
  ultimately show ?thesis
    using assms(1,2) by (simp add: days_loop)
qed

section \<open>The claims\<close>

text \<open>
  C1. Whatever the thresholds and the reading, \<^verbatim>\<open>changeState\<close> turns the fan on
  exactly when the temperature is strictly above its threshold and the valve on exactly
  when the humidity is strictly below its threshold, each on its own; a reading equal to
  a threshold leaves that actuator off. In the growth phase (thresholds 20 and 50) the
  reading (22, 40) turns both on and the reading (20, 50) turns both off, also when
  the thresholds are those that \<^verbatim>\<open>greenHouseControl\<close> sets on day 0.
\<close>

theorem changeState_strict_thresholds:
  "fanOn (changeState s) = (sint (temperatureThreshold s) < sint (temperature s))
   \<and> valveOn (changeState s) = (sint (humidity s) < sint (humidityThreshold s))
   \<and> \<not> fanOn (changeState (s\<lparr>temperature := temperatureThreshold s\<rparr>))
   \<and> \<not> valveOn (changeState (s\<lparr>humidity := humidityThreshold s\<rparr>))
   \<and> fanOn (changeState (s\<lparr>temperatureThreshold := 20, humidityThreshold := 50,
                              temperature := 22, humidity := 40\<rparr>))
   \<and> valveOn (changeState (s\<lparr>temperatureThreshold := 20, humidityThreshold := 50,
                                temperature := 22, humidity := 40\<rparr>))
   \<and> \<not> fanOn (changeState (s\<lparr>temperatureThreshold := 20, humidityThreshold := 50,
                                temperature := 20, humidity := 50\<rparr>))
   \<and> \<not> valveOn (changeState (s\<lparr>temperatureThreshold := 20, humidityThreshold := 50,
                                  temperature := 20, humidity := 50\<rparr>))
   \<and> fanOn (greenHouseControl (s\<lparr>days := 0, temperature := 22, humidity := 40\<rparr>))
   \<and> valveOn (greenHouseControl (s\<lparr>days := 0, temperature := 22, humidity := 40\<rparr>))
   \<and> \<not> fanOn (greenHouseControl (s\<lparr>days := 0, temperature := 20, humidity := 50\<rparr>))
   \<and> \<not> valveOn (greenHouseControl (s\<lparr>days := 0, temperature := 20, humidity := 50\<rparr>))"
  by (simp add: fanOn_changeState valveOn_changeState
      fanOn_greenHouseControl valveOn_greenHouseControl
      temperatureThreshold_greenHouseControl humidityThreshold_greenHouseControl)

text \<open>
  C2. The phase that \<^verbatim>\<open>greenHouseControl\<close> sets is one of growth (G), reproductive
  (R) and finished (E), and which one is decided by the day alone: G exactly when
  \<open>days < growthDays\<close>, R exactly when \<open>growthDays \<le> days < growthDays +
  reproductiveDays\<close>, E exactly when \<open>growthDays + reproductiveDays \<le> days\<close>. The
  three conditions exclude each other and cover every day, so the days from 0 on are
  split without gap or overlap. With the sketch's durations 10 and 5, day 9 is G, day 10
  is R and day 15 is E.
\<close>

theorem greenHouseControl_phase_partition:
  "(ciclePhase (greenHouseControl s) = CHR ''G'' \<longleftrightarrow> sint (days s) < sint growthDays)
   \<and> (ciclePhase (greenHouseControl s) = CHR ''R'' \<longleftrightarrow>
        sint growthDays \<le> sint (days s)
        \<and> sint (days s) < sint growthDays + sint reproductiveDays)
   \<and> (ciclePhase (greenHouseControl s) = CHR ''E'' \<longleftrightarrow>
        sint growthDays + sint reproductiveDays \<le> sint (days s))
   \<and> ciclePhase (greenHouseControl s) \<in> {CHR ''G'', CHR ''R'', CHR ''E''}
   \<and> sint growthDays = 10 \<and> sint reproductiveDays = 5
   \<and> ciclePhase (greenHouseControl (s\<lparr>days := 9\<rparr>)) = CHR ''G''
   \<and> ciclePhase (greenHouseControl (s\<lparr>days := 10\<rparr>)) = CHR ''R''
   \<and> ciclePhase (greenHouseControl (s\<lparr>days := 15\<rparr>)) = CHR ''E''"
  by (simp add: ciclePhase_greenHouseControl growthDays_def reproductiveDays_def)

text \<open>
  C5 (as amended). After every pass of \<^verbatim>\<open>loop\<close>, however many passes came before
  it since the program started, the day count is the quotient by 86400 of the elapsed seconds, where the elapsed seconds are the 32-bit unsigned
  difference of the clock and the cycle start, and the quotient is kept in the 16-bit
  \<^verbatim>\<open>days\<close>. When the clock is not before the cycle start and fewer than 32768 days
  have passed, this is the floor of (now - cycleStart) / 86400.
\<close>

theorem loop_days_floor:
  "sint (days (loop i (loops is (initial su)))) =
     signed_take_bit 15 (uint (now_unixtime i - su) div 86400)
   \<and> (su \<le> now_unixtime i \<and> (uint (now_unixtime i) - uint su) div 86400 < 32768
        \<longrightarrow> sint (days (loop i (loops is (initial su)))) =
              (uint (now_unixtime i) - uint su) div 86400)"
proof -
  have "days_current (loops is (initial su))" by (rule days_current_run)
  from days_floor_inv [OF this, of i] show ?thesis
    unfolding start_unixtime_run .
qed

text \<open>
  Eleven days after a cycle start on 20 October 2018, after an earlier pass five seconds
  into the cycle, the day count is 11.
\<close>

theorem loop_days_floor_witness:
  "(1540000000 :: 32 word)
     \<le> now_unixtime (pass_at (DateTime_of 2018 10 31 1 46 40) 1540950400 22 40)
   \<and> (uint (now_unixtime (pass_at (DateTime_of 2018 10 31 1 46 40) 1540950400 22 40))
        - uint (1540000000 :: 32 word)) div 86400 < 32768
   \<and> sint (days (loop (pass_at (DateTime_of 2018 10 31 1 46 40) 1540950400 22 40)
                    (loops [pass_at (DateTime_of 2018 10 20 1 46 45) 1540000005 22 40]
                       (initial 1540000000)))) = 11"
  using loop_days_floor [of "pass_at (DateTime_of 2018 10 31 1 46 40) 1540950400 22 40"
      "[pass_at (DateTime_of 2018 10 20 1 46 45) 1540000005 22 40]" 1540000000]
  by (simp add: pass_at_def)

text \<open>
  C5 as stated fails when the clock is behind the cycle start: one second before the
  start, the floor of (now - cycleStart) / 86400 is -1 and the quotient of the wrapped
  difference is 49710, while \<^verbatim>\<open>days\<close> holds -15826.
\<close>

theorem loop_days_clock_behind:
  "sint (days (loop (pass_at (DateTime_of 2018 10 20 1 46 39) 1539999999 22 40)
                 (initial 1540000000))) = - 15826
   \<and> ((1539999999 :: int) - 1540000000) div 86400 = - 1
   \<and> (1539999999 :: 32 word) - 1540000000 = 4294967295
   \<and> uint (4294967295 :: 32 word) div 86400 = 49710"
proof -
  have "days (loop (pass_at (DateTime_of 2018 10 20 1 46 39) 1539999999 22 40)
                (initial 1540000000))
          = elapsedDays (1539999999 - 1540000000)"
    by (simp add: days_loop days_current_initial)
       (simp add: currentSecond_def pass_at_def initial_def)
  then show ?thesis
    by (simp add: elapsedDays_def)
qed

text \<open>
  C6 (as amended). For one cycle start, if a pass of any run of the program is made at
  clock value \<open>now1\<close> and a pass of any run at a later value \<open>now2\<close>, the first not before the cycle start and the second fewer
  than 32768 days after it, then the day count of the second pass is at least that of the
  first.
\<close>

theorem days_monotone:
  assumes "su \<le> now_unixtime i1"
    and "now_unixtime i1 < now_unixtime i2"
    and "(uint (now_unixtime i2) - uint su) div 86400 < 32768"
  shows "sint (days (loop i1 (loops is1 (initial su))))
           \<le> sint (days (loop i2 (loops is2 (initial su))))"
  using assms
  by (intro days_monotone_inv) (simp_all add: days_current_run start_unixtime_run)

text \<open>The first pass, five seconds into the cycle, and a second pass eleven days into it.\<close>

theorem days_monotone_witness:
  "(1540000000 :: 32 word)
     \<le> now_unixtime (pass_at (DateTime_of 2018 10 20 1 46 45) 1540000005 22 40)
   \<and> now_unixtime (pass_at (DateTime_of 2018 10 20 1 46 45) 1540000005 22 40)
       < now_unixtime (pass_at (DateTime_of 2018 10 31 1 46 40) 1540950400 22 40)
   \<and> (uint (now_unixtime (pass_at (DateTime_of 2018 10 31 1 46 40) 1540950400 22 40))
        - uint (1540000000 :: 32 word)) div 86400 < 32768
   \<and> sint (days (loop (pass_at (DateTime_of 2018 10 20 1 46 45) 1540000005 22 40)
                    (loops [] (initial 1540000000))))
       \<le> sint (days (loop (pass_at (DateTime_of 2018 10 31 1 46 40) 1540950400 22 40)
                    (loops [pass_at (DateTime_of 2018 10 20 1 46 45) 1540000005 22 40]
                       (initial 1540000000))))"
proof -
  let ?i1 = "pass_at (DateTime_of 2018 10 20 1 46 45) 1540000005 22 40"
  let ?i2 = "pass_at (DateTime_of 2018 10 31 1 46 40) 1540950400 22 40"
  have h1: "(1540000000 :: 32 word) \<le> now_unixtime ?i1" by (simp add: pass_at_def)
  have h2: "now_unixtime ?i1 < now_unixtime ?i2" by (simp add: pass_at_def)
  have h3: "(uint (now_unixtime ?i2) - uint (1540000000 :: 32 word)) div 86400 < 32768"
    by (simp add: pass_at_def)
  from days_monotone [OF h1 h2 h3, of "[]" "[?i1]"] h1 h2 h3 show ?thesis by (intro conjI)
qed

text \<open>
  C6 as stated fails for a clock that starts behind the cycle start (for a cycle begun in
  2065, a pass in 2001 counts 26562 days and the later pass at the start counts 0), and
  where the count leaves the 16-bit range (day 32767 is followed by day -32768).
\<close>

theorem days_decrease:
  "now_unixtime (pass_at (DateTime_of 2001 9 9 1 46 40) 1000000000 22 40)
     < now_unixtime (pass_at (DateTime_of 2065 1 24 5 20 0) 3000000000 22 40)
   \<and> sint (days (loop (pass_at (DateTime_of 2001 9 9 1 46 40) 1000000000 22 40)
                    (initial 3000000000))) = 26562
   \<and> sint (days (loop (pass_at (DateTime_of 2065 1 24 5 20 0) 3000000000 22 40)
                    (loop (pass_at (DateTime_of 2001 9 9 1 46 40) 1000000000 22 40)
                       (initial 3000000000)))) = 0
   \<and> now_unixtime (pass_at (DateTime_of 2091 5 27 1 46 40) 3831068800 22 40)
       < now_unixtime (pass_at (DateTime_of 2091 5 28 1 46 40) 3831155200 22 40)
   \<and> sint (days (loop (pass_at (DateTime_of 2091 5 27 1 46 40) 3831068800 22 40)
                    (initial 1000000000))) = 32767
   \<and> sint (days (loop (pass_at (DateTime_of 2091 5 28 1 46 40) 3831155200 22 40)
                    (loop (pass_at (DateTime_of 2091 5 27 1 46 40) 3831068800 22 40)
                       (initial 1000000000)))) = - 32768"
proof -
  have "days (loop (pass_at (DateTime_of 2001 9 9 1 46 40) 1000000000 22 40)
                (initial 3000000000)) = elapsedDays (1000000000 - 3000000000)"
    by (simp add: days_loop days_current_initial)
       (simp add: currentSecond_def pass_at_def initial_def)
  moreover have "days (loop (pass_at (DateTime_of 2065 1 24 5 20 0) 3000000000 22 40)
                    (loop (pass_at (DateTime_of 2001 9 9 1 46 40) 1000000000 22 40)
                       (initial 3000000000))) = elapsedDays (3000000000 - 3000000000)"
    by (simp add: days_loop days_current_loop days_current_initial currentSecond_loop)
       (simp add: currentSecond_def pass_at_def initial_def)
  moreover have "days (loop (pass_at (DateTime_of 2091 5 27 1 46 40) 3831068800 22 40)
                    (initial 1000000000)) = elapsedDays (3831068800 - 1000000000)"
    by (simp add: days_loop days_current_initial)
       (simp add: currentSecond_def pass_at_def initial_def)
  moreover have "days (loop (pass_at (DateTime_of 2091 5 28 1 46 40) 3831155200 22 40)
                    (loop (pass_at (DateTime_of 2091 5 27 1 46 40) 3831068800 22 40)
                       (initial 1000000000))) = elapsedDays (3831155200 - 1000000000)"
    by (simp add: days_loop days_current_loop days_current_initial currentSecond_loop)
       (simp add: currentSecond_def pass_at_def initial_def)
  ultimately show ?thesis
    by (simp add: elapsedDays_def pass_at_def)
qed

text \<open>
  C7 (as amended). Run \<^verbatim>\<open>loop\<close> from the start of the program on any series of
  clock values that never decrease, none before the cycle start and none 32768 days or
  more after it. Then the phases shown after the passes never step back in the order
  U (no reading yet), G, R, E.
\<close>

theorem phases_never_regress:
  assumes "sorted (map now_unixtime is)"
    and "\<forall>i\<in>set is. su \<le> now_unixtime i
           \<and> (uint (now_unixtime i) - uint su) div 86400 < 32768"
  shows "sorted (map phaseRank (phases is (initial su)))"
proof -
  have "\<forall>i\<in>set is. start_unixtime (initial su) \<le> now_unixtime i
           \<and> (uint (now_unixtime i) - uint (start_unixtime (initial su))) div 86400 < 32768
           \<and> previousTimeUpdate (initial su) \<le> currentSecond i (initial su)"
    using assms(2) by (simp add: initial_def)
  with cycle_inv_initial assms(1)
  have "sorted (map phaseRank (ciclePhase (initial su) # phases is (initial su)))"
    by (rule phases_sorted)
  then show ?thesis by simp
qed


text \<open>Passes five seconds, ten days and fifteen days into a cycle show G, R and E.\<close>

theorem phases_never_regress_witness:
  "sorted (map now_unixtime
      [pass_at (DateTime_of 2018 10 20 1 46 45) 1540000005 22 40,
       pass_at (DateTime_of 2018 10 30 1 46 40) 1540864000 22 40,
       pass_at (DateTime_of 2018 11 4 1 46 40) 1541296000 22 40])
   \<and> (1540000000 :: 32 word) \<le> 1540000005
   \<and> (uint (1540000005 :: 32 word) - uint (1540000000 :: 32 word)) div 86400 < 32768
   \<and> (1540000000 :: 32 word) \<le> 1540864000
   \<and> (uint (1540864000 :: 32 word) - uint (1540000000 :: 32 word)) div 86400 < 32768
   \<and> (1540000000 :: 32 word) \<le> 1541296000
   \<and> (uint (1541296000 :: 32 word) - uint (1540000000 :: 32 word)) div 86400 < 32768
   \<and> phases
        [pass_at (DateTime_of 2018 10 20 1 46 45) 1540000005 22 40,
         pass_at (DateTime_of 2018 10 30 1 46 40) 1540864000 22 40,
         pass_at (DateTime_of 2018 11 4 1 46 40) 1541296000 22 40]
        (initial 1540000000) = ''GRE''
   \<and> sorted (map phaseRank (phases
        [pass_at (DateTime_of 2018 10 20 1 46 45) 1540000005 22 40,
         pass_at (DateTime_of 2018 10 30 1 46 40) 1540864000 22 40,
         pass_at (DateTime_of 2018 11 4 1 46 40) 1541296000 22 40]
        (initial 1540000000)))"
proof -
  let ?is = "[pass_at (DateTime_of 2018 10 20 1 46 45) 1540000005 22 40,
       pass_at (DateTime_of 2018 10 30 1 46 40) 1540864000 22 40,
       pass_at (DateTime_of 2018 11 4 1 46 40) 1541296000 22 40]"
  have h1: "sorted (map now_unixtime ?is)" by (simp add: pass_at_def)
  have h2: "\<forall>i\<in>set ?is. (1540000000 :: 32 word) \<le> now_unixtime i
           \<and> (uint (now_unixtime i) - uint (1540000000 :: 32 word)) div 86400 < 32768"
    by (simp add: pass_at_def)
  have ev: "phases ?is (initial 1540000000) = ''GRE''"
    by (simp add: ciclePhase_loop days_current_loop days_current_initial currentSecond_loop
          previousDHTMeasure_loop DHTMeasureDue_def)
       (simp add: currentSecond_def pass_at_def initial_def DHTInterval_def elapsedDays_def)
  from phases_never_regress [OF h1 h2] h1 ev show ?thesis by simp
qed

text \<open>
  C7 as stated fails. With clock values that never decrease and lie after the cycle
  start, the phase falls from E back to G when the day count passes 32767; and a clock
  that starts behind the cycle start shows E first and G once it reaches the start.
\<close>

theorem phases_regress:
  "sorted (map now_unixtime
      [pass_at (DateTime_of 2091 5 27 1 46 40) 3831068800 22 40,
       pass_at (DateTime_of 2091 5 28 1 46 40) 3831155200 22 40])
   \<and> (1000000000 :: 32 word) \<le> 3831068800
   \<and> phases
        [pass_at (DateTime_of 2091 5 27 1 46 40) 3831068800 22 40,
         pass_at (DateTime_of 2091 5 28 1 46 40) 3831155200 22 40]
        (initial 1000000000) = ''EG''
   \<and> sorted (map now_unixtime
      [pass_at (DateTime_of 2001 9 9 1 46 40) 1000000000 22 40,
       pass_at (DateTime_of 2065 1 24 5 20 0) 3000000000 22 40])
   \<and> phases
        [pass_at (DateTime_of 2001 9 9 1 46 40) 1000000000 22 40,
         pass_at (DateTime_of 2065 1 24 5 20 0) 3000000000 22 40]
        (initial 3000000000) = ''EG''
   \<and> \<not> sorted (map phaseRank ''EG'')"
proof -
  have "phases
        [pass_at (DateTime_of 2091 5 27 1 46 40) 3831068800 22 40,
         pass_at (DateTime_of 2091 5 28 1 46 40) 3831155200 22 40]
        (initial 1000000000) = ''EG''"
    by (simp add: ciclePhase_loop days_current_loop days_current_initial currentSecond_loop
          previousDHTMeasure_loop DHTMeasureDue_def)
       (simp add: currentSecond_def pass_at_def initial_def DHTInterval_def elapsedDays_def)
  moreover have "phases
        [pass_at (DateTime_of 2001 9 9 1 46 40) 1000000000 22 40,
         pass_at (DateTime_of 2065 1 24 5 20 0) 3000000000 22 40]
        (initial 3000000000) = ''EG''"
    by (simp add: ciclePhase_loop days_current_loop days_current_initial currentSecond_loop
          previousDHTMeasure_loop DHTMeasureDue_def)
       (simp add: currentSecond_def pass_at_def initial_def DHTInterval_def elapsedDays_def)
  ultimately show ?thesis by (simp add: pass_at_def phaseRank_def)
qed

text \<open>
  C10 (as amended). When the clock is before the cycle start, the elapsed seconds are
  the wrapped difference, 2^32 minus the number of seconds the clock is behind. On a
  pass that reads the sensor, in any state that a run of the program reaches, the phase shown is E exactly when the quotient of that
  difference by 86400 lies between 15 and 32767. When the quotient is 32768 or more,
  which is so whenever the clock is at most 1463812096 seconds behind, the 16-bit day
  count is the quotient minus 65536, a negative number, and the phase shown is G. No
  error is reported for the clock: with a working card the list of errors is unchanged.
\<close>

theorem clock_behind_phase:
  assumes "s = loops is (initial su)" and "DHTMeasureDue (currentSecond i s) s"
    and "now_unixtime i < start_unixtime s"
  shows "uint (currentSecond i s)
           = 4294967296 - (uint (start_unixtime s) - uint (now_unixtime i))
     \<and> (ciclePhase (loop i s) = CHR ''E'')
         = (15 \<le> uint (currentSecond i s) div 86400
            \<and> uint (currentSecond i s) div 86400 < 32768)
     \<and> (32768 \<le> uint (currentSecond i s) div 86400
          \<longrightarrow> ciclePhase (loop i s) = CHR ''G''
              \<and> sint (days (loop i s)) = uint (currentSecond i s) div 86400 - 65536)
     \<and> (uint (start_unixtime s) - uint (now_unixtime i) \<le> 1463812096
          \<longrightarrow> ciclePhase (loop i s) = CHR ''G'')
     \<and> (sd_open_ok i \<longrightarrow> errors (loop i s) = errors s)"
proof -
  let ?q = "uint (currentSecond i s) div 86400"
  have cur: "days_current s" using assms(1) by (simp add: days_current_run)
  have u: "uint (currentSecond i s)
             = 4294967296 - (uint (start_unixtime s) - uint (now_unixtime i))"
    using assms(3) by (rule uint_currentSecond_behind)
  have ph: "ciclePhase (loop i s) =
              (if sint (elapsedDays (currentSecond i s)) < 10 then CHR ''G''
               else if sint (elapsedDays (currentSecond i s)) < 15 then CHR ''R''
               else CHR ''E'')"
    using cur assms(2) by (simp add: ciclePhase_loop)
  have d: "days (loop i s) = elapsedDays (currentSecond i s)"
    using cur by (rule days_loop)
  have neg: "ciclePhase (loop i s) = CHR ''G''
             \<and> sint (days (loop i s)) = ?q - 65536" if "32768 \<le> ?q"
  proof -
    from that have "sint (elapsedDays (currentSecond i s)) = ?q - 65536"
      by (rule sint_elapsedDays_neg)
    moreover have "?q < 49711" by (rule div_bound)
    ultimately show ?thesis using ph d by simp
  qed
  have fin: "(ciclePhase (loop i s) = CHR ''E'') = (15 \<le> ?q \<and> ?q < 32768)"
  proof (cases "?q < 32768")
    case True
    then have "sint (elapsedDays (currentSecond i s)) = ?q" by (rule sint_elapsedDays)
    with True ph show ?thesis by simp
  next
    case False
    then have "ciclePhase (loop i s) = CHR ''G''" using neg by simp
    with False show ?thesis by simp
  qed
  have near: "ciclePhase (loop i s) = CHR ''G''"
    if "uint (start_unixtime s) - uint (now_unixtime i) \<le> 1463812096"
  proof -
    from that u have "2831155200 \<le> uint (currentSecond i s)" by simp
    then have "2831155200 div 86400 \<le> ?q" by (rule zdiv_mono1) simp
    then have "32768 \<le> ?q" by simp
    then show ?thesis using neg by simp
  qed
  show ?thesis using u fin neg near by (simp add: errors_loop)
qed

text \<open>
  A clock that has fallen back to 1 January 2000 in a cycle begun on 20 October 2018:
  day count -22693, phase G.
\<close>

theorem clock_behind_phase_witness:
  "initial 1540000000 = loops [] (initial 1540000000)
   \<and> DHTMeasureDue
        (currentSecond (pass_at (DateTime_of 2000 1 1 0 0 0) 946684800 22 40)
           (initial 1540000000))
        (initial 1540000000)
   \<and> now_unixtime (pass_at (DateTime_of 2000 1 1 0 0 0) 946684800 22 40)
       < start_unixtime (initial 1540000000)
   \<and> uint (currentSecond (pass_at (DateTime_of 2000 1 1 0 0 0) 946684800 22 40)
              (initial 1540000000)) = 3701652096
   \<and> ciclePhase (loop (pass_at (DateTime_of 2000 1 1 0 0 0) 946684800 22 40)
                    (initial 1540000000)) = CHR ''G''
   \<and> sint (days (loop (pass_at (DateTime_of 2000 1 1 0 0 0) 946684800 22 40)
                    (initial 1540000000))) = - 22693
   \<and> errors (loop (pass_at (DateTime_of 2000 1 1 0 0 0) 946684800 22 40)
                (initial 1540000000)) = errors (initial 1540000000)"
proof -
  let ?i = "pass_at (DateTime_of 2000 1 1 0 0 0) 946684800 22 40"
  let ?s = "initial 1540000000"
  have h1: "?s = loops [] ?s" by simp
  have cs: "currentSecond ?i ?s = 3701652096"
    by (simp add: currentSecond_def pass_at_def initial_def)
  have h2: "DHTMeasureDue (currentSecond ?i ?s) ?s"
    unfolding cs by (simp add: DHTMeasureDue_def DHTInterval_def initial_def)
  have h3: "now_unixtime ?i < start_unixtime ?s"
    by (simp add: pass_at_def initial_def)
  have ok: "sd_open_ok ?i" by (simp add: pass_at_def)
  from clock_behind_phase [OF h1 h2 h3] h2 h3 ok show ?thesis
    unfolding cs by simp
qed

text \<open>
  C10 as stated fails: with the clock one second behind the cycle start the difference
  wraps to 4294967295, but the day count is -15826 and the phase shown is G, not E.
\<close>

theorem clock_behind_growth:
  "now_unixtime (pass_at (DateTime_of 2018 10 20 1 46 39) 1539999999 22 40)
     < start_unixtime (initial 1540000000)
   \<and> currentSecond (pass_at (DateTime_of 2018 10 20 1 46 39) 1539999999 22 40)
        (initial 1540000000) = 4294967295
   \<and> sint (days (loop (pass_at (DateTime_of 2018 10 20 1 46 39) 1539999999 22 40)
                    (initial 1540000000))) = - 15826
   \<and> ciclePhase (loop (pass_at (DateTime_of 2018 10 20 1 46 39) 1539999999 22 40)
                    (initial 1540000000)) = CHR ''G''"
proof -
  let ?i = "pass_at (DateTime_of 2018 10 20 1 46 39) 1539999999 22 40"
  let ?s = "initial 1540000000"
  have cs: "currentSecond ?i ?s = 4294967295"
    by (simp add: currentSecond_def pass_at_def initial_def)
  have d: "days (loop ?i ?s) = elapsedDays 4294967295"
    by (simp add: days_loop days_current_initial cs)
  have due: "DHTMeasureDue (currentSecond ?i ?s) ?s"
    unfolding cs by (simp add: DHTMeasureDue_def DHTInterval_def initial_def)
  have "ciclePhase (loop ?i ?s) = CHR ''G''"
    using due by (simp add: ciclePhase_loop days_current_initial cs)
      (simp add: elapsedDays_def)
  with cs d show ?thesis
    by (simp add: elapsedDays_def) (simp add: pass_at_def initial_def)
qed

text \<open>
  C3 (as amended). \<^verbatim>\<open>loop\<close> keeps the fan and valve states only on a pass that does
  not read the sensor. On a pass that reads it, the values delivered are stored and
  applied whether or not the reading is flagged valid: the fan is on exactly when the
  delivered temperature is above the threshold, the valve exactly when the delivered
  humidity is below it, whatever the states were before. The validity flag changes
  nothing in the pass.
\<close>

theorem loop_applies_every_reading:
  "(DHTMeasureDue (currentSecond i s) s \<longrightarrow>
      fanOn (loop i s) = (sint (temperatureThreshold (loop i s)) < sint (dht_temperature i))
      \<and> valveOn (loop i s) = (sint (dht_humidity i) < sint (humidityThreshold (loop i s)))
      \<and> temperature (loop i s) = dht_temperature i
      \<and> humidity (loop i s) = dht_humidity i)
   \<and> (\<not> DHTMeasureDue (currentSecond i s) s \<longrightarrow>
        fanState (loop i s) = fanState s \<and> valveState (loop i s) = valveState s)
   \<and> loop (i\<lparr>dht_valid := v\<rparr>) s = loop i s"
  by (simp add: loop_ignores_valid loop_not_due fanOn_iff valveOn_iff loop_reads
      ON_def OFF_def)

text \<open>
  Five seconds into a cycle the sensor is read and (22, 40) turns both actuators on; two
  seconds into it the sensor is not read and both stay off.
\<close>

theorem loop_applies_every_reading_witness:
  "DHTMeasureDue
     (currentSecond (pass_at (DateTime_of 2018 10 20 1 46 45) 1540000005 22 40)
        (initial 1540000000))
     (initial 1540000000)
   \<and> fanOn (loop (pass_at (DateTime_of 2018 10 20 1 46 45) 1540000005 22 40)
               (initial 1540000000))
   \<and> valveOn (loop (pass_at (DateTime_of 2018 10 20 1 46 45) 1540000005 22 40)
                 (initial 1540000000))
   \<and> temperature (loop (pass_at (DateTime_of 2018 10 20 1 46 45) 1540000005 22 40)
                    (initial 1540000000)) = 22
   \<and> \<not> DHTMeasureDue
         (currentSecond (pass_at (DateTime_of 2018 10 20 1 46 42) 1540000002 22 40)
            (initial 1540000000))
         (initial 1540000000)
   \<and> fanState (loop (pass_at (DateTime_of 2018 10 20 1 46 42) 1540000002 22 40)
                  (initial 1540000000)) = OFF
   \<and> valveState (loop (pass_at (DateTime_of 2018 10 20 1 46 42) 1540000002 22 40)
                    (initial 1540000000)) = OFF"
proof -
  let ?s = "initial 1540000000"
  let ?i = "pass_at (DateTime_of 2018 10 20 1 46 45) 1540000005 22 40"
  let ?j = "pass_at (DateTime_of 2018 10 20 1 46 42) 1540000002 22 40"
  have due: "DHTMeasureDue (currentSecond ?i ?s) ?s"
    by (simp add: DHTMeasureDue_def DHTInterval_def currentSecond_def pass_at_def initial_def)
  have thr: "temperatureThreshold (loop ?i ?s) = 20" "humidityThreshold (loop ?i ?s) = 50"
    using due by (simp_all add: loop_due days_current_initial)
      (simp_all add: currentSecond_def pass_at_def initial_def elapsedDays_def)
  have notdue: "\<not> DHTMeasureDue (currentSecond ?j ?s) ?s"
    by (simp add: DHTMeasureDue_def DHTInterval_def currentSecond_def pass_at_def initial_def)
  have off: "fanState ?s = OFF" "valveState ?s = OFF" by (simp_all add: initial_def)
  have rd: "dht_temperature ?i = 22" "dht_humidity ?i = 40" by (simp_all add: pass_at_def)
  from loop_applies_every_reading [of ?i ?s] loop_applies_every_reading [of ?j ?s]
    due notdue thr off rd
  show ?thesis by simp
qed

text \<open>
  C3 as stated fails: a valid reading (22, 40) turns the fan on, and an invalid reading
  delivering (0, 0) five seconds later turns it off.
\<close>

theorem invalid_reading_changes_fan:
  "dht_valid (pass_at (DateTime_of 2018 10 20 1 46 45) 1540000005 22 40)
   \<and> fanOn (loop (pass_at (DateTime_of 2018 10 20 1 46 45) 1540000005 22 40)
               (initial 1540000000))
   \<and> \<not> dht_valid
         ((pass_at (DateTime_of 2018 10 20 1 46 50) 1540000010 0 0)\<lparr>dht_valid := False\<rparr>)
   \<and> \<not> fanOn
         (loop ((pass_at (DateTime_of 2018 10 20 1 46 50) 1540000010 0 0)
                  \<lparr>dht_valid := False\<rparr>)
            (loop (pass_at (DateTime_of 2018 10 20 1 46 45) 1540000005 22 40)
               (initial 1540000000)))"
proof -
  let ?s = "initial 1540000000"
  let ?i = "pass_at (DateTime_of 2018 10 20 1 46 45) 1540000005 22 40"
  let ?j = "(pass_at (DateTime_of 2018 10 20 1 46 50) 1540000010 0 0)\<lparr>dht_valid := False\<rparr>"
  have due: "DHTMeasureDue (currentSecond ?i ?s) ?s"
    by (simp add: DHTMeasureDue_def DHTInterval_def currentSecond_def pass_at_def initial_def)
  have on: "fanState (loop ?i ?s) = ON"
    using due by (simp add: loop_due days_current_initial)
      (simp add: currentSecond_def pass_at_def initial_def elapsedDays_def)
  have prev: "previousDHTMeasure (loop ?i ?s) = 5"
    using due by (simp add: previousDHTMeasure_loop)
      (simp add: currentSecond_def pass_at_def initial_def)
  have due': "DHTMeasureDue (currentSecond ?j (loop ?i ?s)) (loop ?i ?s)"
    by (simp add: DHTMeasureDue_def prev currentSecond_loop)
      (simp add: DHTInterval_def currentSecond_def pass_at_def initial_def)
  have off: "fanState (loop ?j (loop ?i ?s)) = OFF"
    using due' by (simp add: loop_due days_current_loop days_current_initial
        currentSecond_loop)
      (simp add: currentSecond_def pass_at_def initial_def elapsedDays_def)
  from on off show ?thesis
    by (simp add: fanOn_iff ON_def OFF_def) (simp add: pass_at_def)
qed

text \<open>
  C4 (as amended). From day 15 on, \<^verbatim>\<open>greenHouseControl\<close> sets the phase E with the
  thresholds 99 and 0, and for every reading with temperature at most 99 and humidity at
  least 0 it commands fan off and valve off and writes \<open>OFF\<close> to both relay pins. From
  any state that a run of the program reaches, over any series of passes whose clock
  values all give a day count from 15 to 32767 and
  whose readings all lie in that range, a fan and a valve that are off stay off.
\<close>

theorem finished_rest:
  "(15 \<le> sint (days s) \<and> sint (temperature s) \<le> 99 \<and> 0 \<le> sint (humidity s) \<longrightarrow>
      ciclePhase (greenHouseControl s) = CHR ''E''
      \<and> \<not> fanOn (greenHouseControl s) \<and> \<not> valveOn (greenHouseControl s)
      \<and> fanPin_level (greenHouseControl s) = OFF
      \<and> valvePin_level (greenHouseControl s) = OFF)
   \<and> (s = loops js (initial su) \<and> \<not> fanOn s \<and> \<not> valveOn s
        \<and> (\<forall>i\<in>set is. 15 \<le> uint (currentSecond i s) div 86400
              \<and> uint (currentSecond i s) div 86400 < 32768
              \<and> sint (dht_temperature i) \<le> 99 \<and> 0 \<le> sint (dht_humidity i)) \<longrightarrow>
        \<not> fanOn (loops is s) \<and> \<not> valveOn (loops is s))"
proof (intro conjI impI)
  assume a: "15 \<le> sint (days s) \<and> sint (temperature s) \<le> 99 \<and> 0 \<le> sint (humidity s)"
  then have r: "ciclePhase (greenHouseControl s) = CHR ''E''"
    "fanState (greenHouseControl s) = OFF" "valveState (greenHouseControl s) = OFF"
    by (simp_all add: greenHouseControl_rest)
  then show "ciclePhase (greenHouseControl s) = CHR ''E''"
    and "\<not> fanOn (greenHouseControl s)" and "\<not> valveOn (greenHouseControl s)"
    and "fanPin_level (greenHouseControl s) = OFF"
    and "valvePin_level (greenHouseControl s) = OFF"
    by (simp_all add: fanOn_iff valveOn_iff pins_greenHouseControl ON_def OFF_def)
next
  assume b: "s = loops js (initial su) \<and> \<not> fanOn s \<and> \<not> valveOn s
        \<and> (\<forall>i\<in>set is. 15 \<le> uint (currentSecond i s) div 86400
              \<and> uint (currentSecond i s) div 86400 < 32768
              \<and> sint (dht_temperature i) \<le> 99 \<and> 0 \<le> sint (dht_humidity i))"
  then have cur: "days_current s" by (simp add: days_current_run)
  from b have off: "\<not> fanOn s" "\<not> valveOn s" by blast+
  from b have "\<forall>i\<in>set is. 15 \<le> uint (currentSecond i s) div 86400
              \<and> uint (currentSecond i s) div 86400 < 32768
              \<and> sint (dht_temperature i) \<le> 99 \<and> 0 \<le> sint (dht_humidity i)"
    by blast
  with cur off have "\<not> fanOn (loops is s) \<and> \<not> valveOn (loops is s)"
    by (rule loops_rest)
  then show "\<not> fanOn (loops is s)" and "\<not> valveOn (loops is s)" by simp_all
qed

text \<open>
  On day 15 the reading (30, 20), which would turn both actuators on in the growth
  phase, leaves both off; so do two passes on days 15 and 16 with that reading.
\<close>

theorem finished_rest_witness:
  "15 \<le> sint (days ((initial 1540000000)\<lparr>days := 15, temperature := 30, humidity := 20\<rparr>))
   \<and> sint (temperature ((initial 1540000000)\<lparr>days := 15, temperature := 30, humidity := 20\<rparr>)) \<le> 99
   \<and> 0 \<le> sint (humidity ((initial 1540000000)\<lparr>days := 15, temperature := 30, humidity := 20\<rparr>))
   \<and> ciclePhase (greenHouseControl
        ((initial 1540000000)\<lparr>days := 15, temperature := 30, humidity := 20\<rparr>)) = CHR ''E''
   \<and> \<not> fanOn (greenHouseControl
        ((initial 1540000000)\<lparr>days := 15, temperature := 30, humidity := 20\<rparr>))
   \<and> \<not> valveOn (greenHouseControl
        ((initial 1540000000)\<lparr>days := 15, temperature := 30, humidity := 20\<rparr>))
   \<and> initial 1540000000 = loops [] (initial 1540000000)
   \<and> \<not> fanOn (initial 1540000000) \<and> \<not> valveOn (initial 1540000000)
   \<and> uint (currentSecond (pass_at (DateTime_of 2018 11 4 1 46 40) 1541296000 30 20)
        (initial 1540000000)) div 86400 = 15
   \<and> uint (currentSecond (pass_at (DateTime_of 2018 11 5 1 46 40) 1541382400 30 20)
        (initial 1540000000)) div 86400 = 16
   \<and> \<not> fanOn (loops [pass_at (DateTime_of 2018 11 4 1 46 40) 1541296000 30 20,
                       pass_at (DateTime_of 2018 11 5 1 46 40) 1541382400 30 20]
                 (initial 1540000000))
   \<and> \<not> valveOn (loops [pass_at (DateTime_of 2018 11 4 1 46 40) 1541296000 30 20,
                         pass_at (DateTime_of 2018 11 5 1 46 40) 1541382400 30 20]
                   (initial 1540000000))"
proof -
  let ?s = "initial 1540000000"
  let ?t = "?s\<lparr>days := 15, temperature := 30, humidity := 20\<rparr>"
  let ?is = "[pass_at (DateTime_of 2018 11 4 1 46 40) 1541296000 30 20,
              pass_at (DateTime_of 2018 11 5 1 46 40) 1541382400 30 20]"
  have a: "15 \<le> sint (days ?t) \<and> sint (temperature ?t) \<le> 99 \<and> 0 \<le> sint (humidity ?t)"
    by simp
  have off: "\<not> fanOn ?s" "\<not> valveOn ?s"
    by (simp_all add: fanOn_iff valveOn_iff initial_def ON_def OFF_def)
  have q: "uint (currentSecond (pass_at (DateTime_of 2018 11 4 1 46 40) 1541296000 30 20)
             ?s) div 86400 = 15"
    "uint (currentSecond (pass_at (DateTime_of 2018 11 5 1 46 40) 1541382400 30 20)
             ?s) div 86400 = 16"
    by (simp_all add: currentSecond_def pass_at_def initial_def)
  have rd: "\<forall>i\<in>set ?is. sint (dht_temperature i) \<le> 99 \<and> 0 \<le> sint (dht_humidity i)"
    by (simp add: pass_at_def)
  have b: "?s = loops [] ?s \<and> \<not> fanOn ?s \<and> \<not> valveOn ?s
        \<and> (\<forall>i\<in>set ?is. 15 \<le> uint (currentSecond i ?s) div 86400
              \<and> uint (currentSecond i ?s) div 86400 < 32768
              \<and> sint (dht_temperature i) \<le> 99 \<and> 0 \<le> sint (dht_humidity i))"
    using off q rd by simp
  from finished_rest [of ?t ?is] a have 1: "ciclePhase (greenHouseControl ?t) = CHR ''E''
      \<and> \<not> fanOn (greenHouseControl ?t) \<and> \<not> valveOn (greenHouseControl ?t)"
    by blast
  from finished_rest [of ?s "[]" 1540000000 ?is] b
  have 2: "\<not> fanOn (loops ?is ?s) \<and> \<not> valveOn (loops ?is ?s)"
    by blast
  from a 1 2 off q show ?thesis by simp
qed

text \<open>
  C4 as stated fails: in phase E a temperature of 100 turns the fan on, and a humidity of
  -1 turns the valve on.
\<close>

theorem finished_fan_on:
  "ciclePhase (greenHouseControl
      ((initial 1540000000)\<lparr>days := 15, temperature := 100, humidity := 40\<rparr>)) = CHR ''E''
   \<and> fanOn (greenHouseControl
      ((initial 1540000000)\<lparr>days := 15, temperature := 100, humidity := 40\<rparr>))
   \<and> ciclePhase (greenHouseControl
      ((initial 1540000000)\<lparr>days := 15, temperature := 22, humidity := - 1\<rparr>)) = CHR ''E''
   \<and> valveOn (greenHouseControl
      ((initial 1540000000)\<lparr>days := 15, temperature := 22, humidity := - 1\<rparr>))"
  by (simp add: ciclePhase_greenHouseControl fanOn_greenHouseControl valveOn_greenHouseControl
      temperatureThreshold_greenHouseControl humidityThreshold_greenHouseControl)





text \<open>
  C8. The cycle-start record round-trips. For every valid timestamp, the text that
  \<^verbatim>\<open>setup\<close> writes to \<^verbatim>\<open>date.txt\<close> (day, month, year, hour, minute and second as
  DD/MM/YYYY HH:MM:SS, the two-digit fields padded with a zero, then the line end) is
  read back by \<^verbatim>\<open>setup\<close>, which cuts the fields at the fixed positions 0-2, 3-5, 6-10,
  11-13, 14-16 and 17-19, as the same timestamp.
\<close>

theorem start_record_roundtrip:
  assumes "valid_DateTime dt"
  shows "read_start (write_start dt) = dt"
proof -
  from assms have
    y: "1000 \<le> sint (year dt)" "sint (year dt) < 10000" and
    mo: "0 \<le> sint (month dt)" "sint (month dt) < 100" and
    d: "0 \<le> sint (day dt)" "sint (day dt) < 100" and
    h: "0 \<le> sint (hour dt)" "sint (hour dt) < 100" and
    mi: "0 \<le> sint (minute dt)" "sint (minute dt) < 100" and
    se: "0 \<le> sint (second dt)" "sint (second dt) < 100"
    by (simp_all add: valid_DateTime_def)
  note fmt = formatNumber_four [OF y] formatNumber_two [OF mo] formatNumber_two [OF d]
    formatNumber_two [OF h] formatNumber_two [OF mi] formatNumber_two [OF se]
  note rd = read_four [OF y] read_two [OF mo] read_two [OF d]
    read_two [OF h] read_two [OF mi] read_two [OF se]
  show ?thesis
    by (simp add: read_start_def write_start_def printDate_def printTime_def fmt
        substring_def rd DateTime_of_def)
qed

text \<open>7 October 2018, 09:05:00 is written as 07/10/2018 09:05:00 and read back.\<close>

theorem start_record_roundtrip_witness:
  "valid_DateTime (DateTime_of 2018 10 7 9 5 0)
   \<and> write_start (DateTime_of 2018 10 7 9 5 0)
       = ''07/10/2018 09:05:00'' @ [CHR 0x0D, CHR 0x0A]
   \<and> read_start (write_start (DateTime_of 2018 10 7 9 5 0)) = DateTime_of 2018 10 7 9 5 0"
proof -
  have v: "valid_DateTime (DateTime_of 2018 10 7 9 5 0)"
    by (simp add: valid_DateTime_def DateTime_of_def)
  have w: "write_start (DateTime_of 2018 10 7 9 5 0)
             = ''07/10/2018 09:05:00'' @ [CHR 0x0D, CHR 0x0A]"
    by (simp add: write_start_def printDate_def printTime_def formatNumber_def
        String_int_def DateTime_of_def digits10.simps digit_char_def)
  from start_record_roundtrip [OF v] v w show ?thesis by simp
qed

end
